theory Spec2Isabelle
  imports Main "HOL-Library.AList" "HOL-Library.List_Lexorder" "HOL-Library.Char_ord"
    "HOL-Library.Multiset"
begin

section \<open>Python strings\<close>

text \<open>
  A Python \<open>str\<close> is modelled as a \<^typ>\<open>string\<close>; a \<^typ>\<open>char\<close> stands for a code point
  below 256.  The functions below are the string methods the knowledge-base code calls:
  \<open>str.lower\<close>, \<open>in\<close>, \<open>str.count\<close>, \<open>str.startswith\<close>, \<open>str.endswith\<close>,
  \<open>str.replace\<close>, \<open>str.split\<close>, \<open>str.join\<close> and \<open>str.strip\<close>.
\<close>

definition is_upper :: "char \<Rightarrow> bool" where
  "is_upper c = (let n = (of_char c :: nat) in
     (65 \<le> n \<and> n \<le> 90) \<or> (192 \<le> n \<and> n \<le> 222 \<and> n \<noteq> 215))"

definition lower_char :: "char \<Rightarrow> char" where
  "lower_char c = (if is_upper c then char_of ((of_char c :: nat) + 32) else c)"

definition lower :: "string \<Rightarrow> string" where
  "lower s = map lower_char s"

definition startswith :: "string \<Rightarrow> string \<Rightarrow> bool" where
  "startswith s p = (take (length p) s = p)"

definition endswith :: "string \<Rightarrow> string \<Rightarrow> bool" where
  "endswith s p = (length p \<le> length s \<and> drop (length s - length p) s = p)"

text \<open>\<open>sub in s\<close>: some suffix of \<open>s\<close> starts with \<open>sub\<close>.\<close>

fun contains :: "string \<Rightarrow> string \<Rightarrow> bool" where
  "contains [] sub = (sub = [])"
| "contains (c # cs) sub = (startswith (c # cs) sub \<or> contains cs sub)"

text \<open>
  \<open>s.count(sub)\<close>: the number of non-overlapping occurrences, scanning from the left; the
  empty pattern occurs \<open>len(s) + 1\<close> times.
\<close>

function count :: "string \<Rightarrow> string \<Rightarrow> nat" where
  "count s sub =
     (if sub = [] then length s + 1
      else if length s < length sub then 0
      else if startswith s sub then 1 + count (drop (length sub) s) sub
      else count (tl s) sub)"
  by pat_completeness auto
termination
proof (relation "measure (\<lambda>(s, sub). length s)")
  fix s sub :: string
  assume "sub \<noteq> []" and "\<not> length s < length sub"
  then have "0 < length sub" and "length sub \<le> length s" by simp_all
  then have "length s - length sub < length s" and "length s - 1 < length s" by arith+
  then show "((drop (length sub) s, sub), (s, sub)) \<in> measure (\<lambda>(s, sub). length s)"
    and "((tl s, sub), (s, sub)) \<in> measure (\<lambda>(s, sub). length s)"
    by simp_all
qed simp

declare count.simps [simp del]

text \<open>
  \<open>s.replace(old, new)\<close>: every non-overlapping occurrence of \<open>old\<close>, from the left, becomes
  \<open>new\<close>; an empty \<open>old\<close> inserts \<open>new\<close> before every character and at the end.
\<close>

function replace_from :: "string \<Rightarrow> string \<Rightarrow> string \<Rightarrow> string" where
  "replace_from s old new =
     (if s = [] then []
      else if old \<noteq> [] \<and> startswith s old then new @ replace_from (drop (length old) s) old new
      else hd s # replace_from (tl s) old new)"
  by pat_completeness auto
termination
proof (relation "measure (\<lambda>(s, old, new). length s)")
  fix s old new :: string
  assume "s \<noteq> []"
  then show "((tl s, old, new), (s, old, new)) \<in> measure (\<lambda>(s, old, new). length s)"
    by simp
  assume "old \<noteq> [] \<and> startswith s old"
  with \<open>s \<noteq> []\<close> have "0 < length old" and "0 < length s" by simp_all
  then have "length s - length old < length s" by arith
  then show "((drop (length old) s, old, new), (s, old, new)) \<in> measure (\<lambda>(s, old, new). length s)"
    by simp
qed simp

declare replace_from.simps [simp del]

definition replace :: "string \<Rightarrow> string \<Rightarrow> string \<Rightarrow> string" where
  "replace s old new =
     (if old = [] then new @ concat (map (\<lambda>c. c # new) s) else replace_from s old new)"

text \<open>\<open>s.split('\n')\<close> and \<open>'\n'.join(lines)\<close>.\<close>

fun split_lines :: "string \<Rightarrow> string list" where
  "split_lines [] = [[]]"
| "split_lines (c # cs) =
     (if c = CHR 0x0A then [] # split_lines cs
      else (case split_lines cs of [] \<Rightarrow> [[c]] | l # ls \<Rightarrow> (c # l) # ls))"

fun join :: "string \<Rightarrow> string list \<Rightarrow> string" where
  "join sep [] = []"
| "join sep [x] = x"
| "join sep (x # y # ys) = x @ sep @ join sep (y # ys)"

text \<open>
  \<open>s.strip()\<close> removes leading and trailing white space; below code point 256 these are
  tab, line feed, vertical tab, form feed, carriage return, the separators 28 to 31, space,
  next-line (133) and the no-break space (160).
\<close>

definition is_space :: "char \<Rightarrow> bool" where
  "is_space c = (let n = (of_char c :: nat) in
     (9 \<le> n \<and> n \<le> 13) \<or> (28 \<le> n \<and> n \<le> 32) \<or> n = 133 \<or> n = 160)"

definition strip :: "string \<Rightarrow> string" where
  "strip s = rev (dropWhile is_space (rev (dropWhile is_space s)))"

section \<open>Category classifier\<close>

text \<open>
  \<open>DocumentationWriterAgent._detect_category\<close> of \<open>web_dashboard.py\<close>.  The keyword table is
  the dictionary \<open>category_patterns\<close>, in its insertion order, which is the order in which
  both loops visit it.
\<close>

definition category_patterns :: "(string \<times> string list) list" where
  "category_patterns =
    [(''cardano'', [''cardano'', ''ada'', ''plutus'', ''stake pool'', ''catalyst'',
                   ''daedalus'', ''yoroi'', ''shelley'', ''voltaire'', ''goguen'',
                   ''docs.cardano.org'', ''cardano.org'']),
     (''midnight'', [''midnight'', ''midnight network'', ''dust'', ''compact'',
                    ''midnight.network'', ''privacy blockchain'']),
     (''healthcare'', [''healthcare'', ''health'', ''medical'', ''patient'', ''hipaa'',
                      ''fhir'', ''hl7'', ''ehr'', ''emr'', ''clinical'', ''hospital'',
                      ''doctor'', ''pharma'', ''drug'', ''diagnosis'']),
     (''zkproofs'', [''zero knowledge'', ''zk-proof'', ''zkp'', ''zk-snark'',
                    ''zk-stark'', ''zero-knowledge'', ''proof system'',
                    ''cryptographic proof'', ''privacy proof'']),
     (''smart_contracts'', [''smart contract'', ''solidity'', ''vyper'', ''contract'',
                           ''dapp'', ''decentralized app'', ''on-chain'']),
     (''architecture'', [''architecture'', ''design pattern'', ''system design'',
                        ''infrastructure'', ''scalability'', ''distributed system'',
                        ''consensus'', ''protocol'']),
     (''competitors'', [''ethereum'', ''polkadot'', ''cosmos'', ''avalanche'',
                       ''solana'', ''algorand'', ''near'', ''comparison'', ''vs''])]"

definition blockchain_words :: "string list" where
  "blockchain_words = [''blockchain'', ''crypto'', ''token'', ''wallet'']"

text \<open>\<open>combined_text = f"{topic} {context} {source_url}".lower()\<close>\<close>

definition combined_text :: "string \<Rightarrow> string \<Rightarrow> string \<Rightarrow> string" where
  "combined_text topic context source_url =
     lower (topic @ '' '' @ context @ '' '' @ source_url)"

text \<open>
  The first loop: a category's weight starts at 0 and grows by \<open>combined_text.count(keyword)\<close>
  for every keyword that occurs in the text.
\<close>

definition keyword_weight :: "string \<Rightarrow> string list \<Rightarrow> nat" where
  "keyword_weight text kws =
     fold (\<lambda>keyword weight.
             if contains text keyword then weight + count text keyword else weight)
          kws 0"

definition category_weights :: "string \<Rightarrow> (string \<times> nat) list" where
  "category_weights text =
     map (\<lambda>(category, kws). (category, keyword_weight text kws)) category_patterns"

text \<open>
  The second loop keeps \<open>(max_weight, best_category)\<close> and replaces them only on a strictly
  greater weight.
\<close>

definition pick_best :: "(string \<times> nat) list \<Rightarrow> nat \<times> string \<Rightarrow> nat \<times> string" where
  "pick_best weights start =
     fold (\<lambda>(category, weight) (max_weight, best_category).
             if weight > max_weight then (weight, category) else (max_weight, best_category))
          weights start"

definition detect_category :: "string \<Rightarrow> string \<Rightarrow> string \<Rightarrow> string" where
  "detect_category topic context source_url =
     (let text = combined_text topic context source_url;
          (max_weight, best_category) = pick_best (category_weights text) (0, ''research'')
      in if max_weight = 0 \<and> list_ex (contains text) blockchain_words
         then ''midnight'' else best_category)"

text \<open>
  The weight of a keyword list as the specification words it: occurrences counted in the
  plain concatenation \<open>topic + context + source_url\<close>, lower-cased.  It is compared with
  \<^const>\<open>keyword_weight\<close> on \<^const>\<open>combined_text\<close> below.
\<close>

definition plain_concat_weight :: "string \<Rightarrow> string \<Rightarrow> string \<Rightarrow> string list \<Rightarrow> nat" where
  "plain_concat_weight topic context source_url kws =
     sum_list (map (count (lower (topic @ context @ source_url))) kws)"

section \<open>Clock readings and their formats\<close>

text \<open>
  \<open>datetime.now()\<close> is an input of the model: every function that reads the clock takes the
  reading as an argument.  Numbers are printed in decimal, padded with zeros to the width of
  the format directive.
\<close>

record datetime =
  year :: nat
  month :: nat
  day :: nat
  hour :: nat
  minute :: nat
  second :: nat
  microsecond :: nat

definition digit_char :: "nat \<Rightarrow> char" where
  "digit_char n = char_of (48 + n)"

function decimal :: "nat \<Rightarrow> string" where
  "decimal n = (if n < 10 then [digit_char n] else decimal (n div 10) @ [digit_char (n mod 10)])"
  by pat_completeness auto
termination
  by (relation "measure id") auto

declare decimal.simps [simp del]

definition zero_pad :: "nat \<Rightarrow> nat \<Rightarrow> string" where
  "zero_pad width n = replicate (width - length (decimal n)) (CHR ''0'') @ decimal n"

text \<open>\<open>strftime("%Y%m%d_%H%M%S")\<close>, \<open>strftime('%Y-%m-%d %H:%M:%S')\<close> and \<open>isoformat()\<close>.\<close>

definition strftime_compact :: "datetime \<Rightarrow> string" where
  "strftime_compact d =
     zero_pad 4 (year d) @ zero_pad 2 (month d) @ zero_pad 2 (day d) @ ''_'' @
     zero_pad 2 (hour d) @ zero_pad 2 (minute d) @ zero_pad 2 (second d)"

definition strftime_long :: "datetime \<Rightarrow> string" where
  "strftime_long d =
     zero_pad 4 (year d) @ ''-'' @ zero_pad 2 (month d) @ ''-'' @ zero_pad 2 (day d) @ '' '' @
     zero_pad 2 (hour d) @ '':'' @ zero_pad 2 (minute d) @ '':'' @ zero_pad 2 (second d)"

definition isoformat :: "datetime \<Rightarrow> string" where
  "isoformat d =
     zero_pad 4 (year d) @ ''-'' @ zero_pad 2 (month d) @ ''-'' @ zero_pad 2 (day d) @ ''T'' @
     zero_pad 2 (hour d) @ '':'' @ zero_pad 2 (minute d) @ '':'' @ zero_pad 2 (second d) @
     (if microsecond d = 0 then [] else ''.'' @ zero_pad 6 (microsecond d))"

section \<open>JSON values and \<open>json.dumps(..., indent=2)\<close>\<close>

datatype json =
    JNull
  | JBool bool
  | JInt int
  | JStr string
  | JArr "json list"
  | JObj "(string \<times> json) list"

text \<open>A Python \<open>dict\<close> with string keys, in insertion order.\<close>

type_synonym dict = "(string \<times> json) list"

text \<open>
  String escaping with \<open>ensure_ascii\<close>: the quote and the backslash get a backslash, the
  control characters with a short form use it, and every other character outside
  \<open>' '..'~'\<close> becomes \<open>\u00XX\<close> with lower-case hexadecimal digits.
\<close>

definition hex_digit :: "nat \<Rightarrow> char" where
  "hex_digit n = (if n < 10 then char_of (48 + n) else char_of (87 + n))"

definition escape_char :: "char \<Rightarrow> string" where
  "escape_char c = (let n = (of_char c :: nat) in
     if c = CHR 0x22 then [CHR 0x5C, CHR 0x22]
     else if c = CHR 0x5C then [CHR 0x5C, CHR 0x5C]
     else if c = CHR 0x0A then [CHR 0x5C, CHR ''n'']
     else if c = CHR 0x0D then [CHR 0x5C, CHR ''r'']
     else if c = CHR 0x09 then [CHR 0x5C, CHR ''t'']
     else if c = CHR 0x08 then [CHR 0x5C, CHR ''b'']
     else if c = CHR 0x0C then [CHR 0x5C, CHR ''f'']
     else if n < 32 \<or> 126 < n then [CHR 0x5C, CHR ''u'', CHR ''0'', CHR ''0'',
                                     hex_digit (n div 16), hex_digit (n mod 16)]
     else [c])"

definition quote :: "string \<Rightarrow> string" where
  "quote s = CHR 0x22 # concat (map escape_char s) @ [CHR 0x22]"

definition show_int :: "int \<Rightarrow> string" where
  "show_int i = (if i < 0 then ''-'' @ decimal (nat (- i)) else decimal (nat i))"

definition newline_indent :: "nat \<Rightarrow> string" where
  "newline_indent level = CHR 0x0A # replicate (2 * level) (CHR '' '')"

fun dumps :: "nat \<Rightarrow> json \<Rightarrow> string" where
  "dumps level JNull = ''null''"
| "dumps level (JBool b) = (if b then ''true'' else ''false'')"
| "dumps level (JInt i) = show_int i"
| "dumps level (JStr s) = quote s"
| "dumps level (JArr xs) =
     (if xs = [] then ''[]''
      else ''['' @ newline_indent (Suc level) @
           join ('','' @ newline_indent (Suc level)) (map (dumps (Suc level)) xs) @
           newline_indent level @ '']'')"
| "dumps level (JObj kvs) =
     (if kvs = [] then ''{}''
      else ''{'' @ newline_indent (Suc level) @
           join ('','' @ newline_indent (Suc level))
                (map (\<lambda>kv. quote (fst kv) @ '': '' @ dumps (Suc level) (snd kv)) kvs) @
           newline_indent level @ ''}'')"

text \<open>\<open>d.update(other)\<close>: a key already present keeps its place, a new key goes to the end.\<close>

definition dict_update :: "dict \<Rightarrow> dict \<Rightarrow> dict" where
  "dict_update d other = fold (\<lambda>(k, v). AList.update k v) other d"

section \<open>The document store\<close>

text \<open>
  The knowledge base is the directory \<open>base_path\<close>.  The program keeps it two levels deep: the
  base directory holds regular files (the index) and one folder per category, and a folder
  holds regular files only.  The model is that layout: a folder is the list of its entries
  (file name and text) in directory order, and a store is the list of the base directory's own
  files together with the list of its folders.  A file is addressed by folder and name; the
  path \<open>base_path/folder/name\<close> is what the Python code passes around.
\<close>

type_synonym folder = "(string \<times> string) list"

record store =
  root_files :: folder
  folders :: "(string \<times> folder) list"

record knowledge_base =
  base_path :: string

definition categories :: "(string \<times> string) list" where
  "categories =
    [(''midnight'', ''Midnight blockchain documentation''),
     (''cardano'', ''Cardano technical specs''),
     (''healthcare'', ''Healthcare standards and regulations''),
     (''zkproofs'', ''Zero-knowledge proof research''),
     (''competitors'', ''Competitive analysis''),
     (''architecture'', ''System architecture and design''),
     (''smart_contracts'', ''Smart contract patterns and code''),
     (''research'', ''Raw research findings'')]"

datatype error =
    ValueError string
  | FileNotFoundError string
  | NotADirectoryError string
  | IsADirectoryError string
  | FileNameTooLongError string
  | APIConnectionError string
  | RateLimitError string
  | APIError string

text \<open>\<open>os.path.join(a, b)\<close> on POSIX.\<close>

definition path_join :: "string \<Rightarrow> string \<Rightarrow> string" where
  "path_join a b =
     (if startswith b ''/'' then b
      else if a = [] \<or> endswith a ''/'' then a @ b
      else a @ ''/'' @ b)"

text \<open>
  \<open>os.makedirs(path, exist_ok=True)\<close> for a folder of the base directory, and
  \<open>_initialize_structure\<close>, which the constructor of \<open>KnowledgeBase\<close> runs.
\<close>

definition makedirs :: "string \<Rightarrow> store \<Rightarrow> store" where
  "makedirs name s =
     (if name \<in> fst ` set (folders s) then s else s\<lparr>folders := folders s @ [(name, [])]\<rparr>)"

definition initialize_structure :: "store \<Rightarrow> store" where
  "initialize_structure s = fold makedirs (map fst categories) s"

definition read_file :: "store \<Rightarrow> string \<Rightarrow> string \<Rightarrow> string option" where
  "read_file s dir name =
     (case map_of (folders s) dir of None \<Rightarrow> None | Some files \<Rightarrow> map_of files name)"

text \<open>
  The operating system receives a path as bytes, and Python encodes it in UTF-8: a code point
  below 128 takes one byte and every other code point below 256 takes two.  A path of
  \<open>PATH_MAX\<close> bytes or more is refused, and so is a path component of more than \<open>NAME_MAX\<close>
  bytes; both raise \<open>OSError\<close> with \<open>errno\<close> 36 (\<open>ENAMETOOLONG\<close>), the constructor
  \<open>FileNameTooLongError\<close> here.
\<close>

definition utf8_length :: "string \<Rightarrow> nat" where
  "utf8_length s = length s + length (filter (\<lambda>c. 128 \<le> (of_char c :: nat)) s)"

definition NAME_MAX :: nat where
  "NAME_MAX = 255"

definition PATH_MAX :: nat where
  "PATH_MAX = 4096"

text \<open>
  \<open>open(path, 'w')\<close> followed by the writes, for \<open>path = base_path/dir/name\<close>.  Python refuses a
  path with a NUL character; the base directory and the folder were created under their
  names, so only \<open>name\<close> can bring one in.  The operating system refuses a path that is too
  long as a whole and then resolves it component by component:
  the folder must exist; the next component, \<open>name\<close> up to its first \<open>/\<close>, must not be
  too long; a \<open>/\<close> inside \<open>name\<close> asks for a sub-directory of the folder,
  which is either missing or a regular file; a name that is empty or a dot entry designates a
  directory.  Otherwise the file is created, or truncated when it exists, and holds the text.
\<close>

definition open_write :: "string \<Rightarrow> string \<Rightarrow> string \<Rightarrow> string \<Rightarrow> store \<Rightarrow> error + store" where
  "open_write path dir name text s =
     (if CHR 0x00 \<in> set name then Inl (ValueError ''embedded null byte'')
      else if PATH_MAX \<le> utf8_length path then Inl (FileNameTooLongError path)
      else case map_of (folders s) dir of
        None \<Rightarrow> Inl (FileNotFoundError path)
      | Some files \<Rightarrow>
          if NAME_MAX < utf8_length (takeWhile (\<lambda>c. c \<noteq> CHR ''/'') name)
          then Inl (FileNameTooLongError path)
          else if CHR ''/'' \<in> set name then
            (if takeWhile (\<lambda>c. c \<noteq> CHR ''/'') name \<in> fst ` set files
             then Inl (NotADirectoryError path) else Inl (FileNotFoundError path))
          else if name = [] \<or> name = ''.'' \<or> name = ''..'' then Inl (IsADirectoryError path)
          else Inr (s\<lparr>folders := AList.update dir (AList.update name text files) (folders s)\<rparr>))"

section \<open>Dictionaries passed by reference\<close>

text \<open>
  \<open>add_document\<close> updates the dictionary it is given, so the model keeps dictionaries in a
  heap: a reference is an index into the list of allocated dictionaries.  Python's \<open>None\<close> is
  \<^const>\<open>None\<close>.
\<close>

type_synonym ref = nat

record state =
  heap :: "dict list"
  fs :: store

definition deref :: "dict list \<Rightarrow> ref \<Rightarrow> dict" where
  "deref h r = (if r < length h then h ! r else [])"

definition alloc :: "dict list \<Rightarrow> dict \<Rightarrow> ref \<times> dict list" where
  "alloc h d = (length h, h @ [d])"

section \<open>\<open>KnowledgeBase.add_document\<close>\<close>

text \<open>
  The two readings of the clock are \<open>now1\<close> (for the file name) and \<open>now2\<close> (for the
  \<open>created\<close> entry).  The result is the returned path or the exception raised, together with
  the state the call leaves behind.  \<open>metadata or {}\<close> is the given dictionary itself unless it
  is \<open>None\<close> or empty, in which case a new empty dictionary is made.
\<close>

definition add_document ::
  "knowledge_base \<Rightarrow> datetime \<Rightarrow> datetime \<Rightarrow> string \<Rightarrow> string \<Rightarrow> string \<Rightarrow> ref option \<Rightarrow>
   state \<Rightarrow> (error + string) \<times> state" where
  "add_document kb now1 now2 category title content metadata st =
     (if category \<notin> fst ` set categories
      then (Inl (ValueError (''Invalid category: '' @ category)), st)
      else
        let timestamp = strftime_compact now1;
            filename = timestamp @ ''_'' @ replace title '' '' ''_'' @ ''.md'';
            filepath = path_join (path_join (base_path kb) category) filename;
            (doc_metadata, h1) =
               (case metadata of
                  None \<Rightarrow> alloc (heap st) []
                | Some r \<Rightarrow> if deref (heap st) r \<noteq> [] then (r, heap st) else alloc (heap st) []);
            h2 = h1[doc_metadata := dict_update (deref h1 doc_metadata)
                     [(''created'', JStr (isoformat now2)),
                      (''category'', JStr category),
                      (''title'', JStr title)]];
            text = ''---\<newline>'' @ dumps 0 (JObj (deref h2 doc_metadata)) @ ''\<newline>---\<newline>\<newline>'' @
                   ''# '' @ title @ ''\<newline>\<newline>'' @ content
        in case open_write filepath category filename text (fs st) of
             Inl e \<Rightarrow> (Inl e, st\<lparr>heap := h2\<rparr>)
           | Inr fs' \<Rightarrow> (Inr filepath, st\<lparr>heap := h2, fs := fs'\<rparr>))"





section \<open>\<open>KnowledgeBaseMaintainerAgent.create_index\<close>\<close>

text \<open>
  \<open>str.title()\<close>: the first letter of every run of letters in upper case, the others in lower
  case.  Only the letters \<open>a\<close> to \<open>z\<close> and \<open>A\<close> to \<open>Z\<close> count as letters here; the function is
  applied to the category names.
\<close>

definition is_ascii_letter :: "char \<Rightarrow> bool" where
  "is_ascii_letter c = (let n = (of_char c :: nat) in (65 \<le> n \<and> n \<le> 90) \<or> (97 \<le> n \<and> n \<le> 122))"

definition upper_ascii :: "char \<Rightarrow> char" where
  "upper_ascii c = (let n = (of_char c :: nat) in if 97 \<le> n \<and> n \<le> 122 then char_of (n - 32) else c)"

fun title_from :: "bool \<Rightarrow> string \<Rightarrow> string" where
  "title_from previous_is_cased [] = []"
| "title_from previous_is_cased (c # cs) =
     (if is_ascii_letter c
      then (if previous_is_cased then lower_char c else upper_ascii c) # title_from True cs
      else c # title_from False cs)"

definition str_title :: "string \<Rightarrow> string" where
  "str_title s = title_from False s"

text \<open>
  \<open>os.listdir(category_path)\<close> for the folder \<open>dir\<close> of the base directory, where
  \<open>category_path = os.path.join(self.kb.base_path, category)\<close>.
\<close>

definition listdir :: "knowledge_base \<Rightarrow> store \<Rightarrow> string \<Rightarrow> error + string list" where
  "listdir kb s dir =
     (case map_of (folders s) dir of
        None \<Rightarrow> Inl (FileNotFoundError (path_join (base_path kb) dir))
      | Some files \<Rightarrow> Inr (map fst files))"

text \<open>One line of the index: \<open>- [title](category/file)\<close>.\<close>

definition index_entry :: "string \<Rightarrow> string \<Rightarrow> string" where
  "index_entry category file =
     ''- ['' @ replace (replace file ''.md'' []) ''_'' '' '' @ '']('' @
     category @ ''/'' @ file @ '')\<newline>''"

text \<open>
  The body of the loop over \<open>self.kb.categories.items()\<close>: it extends \<open>index_content\<close> by the
  section of one category and adds the number of its files to \<open>total_docs\<close>.
\<close>

definition index_category ::
  "knowledge_base \<Rightarrow> store \<Rightarrow> string \<times> string \<Rightarrow> string \<times> nat \<Rightarrow> error + string \<times> nat" where
  "index_category kb s cd acc =
     (case cd of (category, description) \<Rightarrow>
      case acc of (index_content, total_docs) \<Rightarrow>
      case listdir kb s category of
        Inl e \<Rightarrow> Inl e
      | Inr names \<Rightarrow>
          let files = filter (\<lambda>f. endswith f ''.md'') names;
              heading = ''## '' @ str_title category @ ''\<newline>'' @ ''*'' @ description @ ''*\<newline>\<newline>''
          in if files \<noteq> []
             then Inr (index_content @ heading @
                       concat (map (index_entry category) (rev (sort files))) @ ''\<newline>'',
                       total_docs + length files)
             else Inr (index_content @ heading @ ''*No documents yet*\<newline>'' @ ''\<newline>'',
                       total_docs))"

fun index_loop ::
  "knowledge_base \<Rightarrow> store \<Rightarrow> (string \<times> string) list \<Rightarrow> string \<times> nat \<Rightarrow> error + string \<times> nat" where
  "index_loop kb s [] acc = Inr acc"
| "index_loop kb s (cd # cds) acc =
     (case index_category kb s cd acc of Inl e \<Rightarrow> Inl e | Inr acc' \<Rightarrow> index_loop kb s cds acc')"

text \<open>
  \<open>create_index\<close> writes \<open>base_path/INDEX.md\<close>, a file of the base directory itself; opening it
  fails when that name is a directory.
\<close>

definition create_index :: "knowledge_base \<Rightarrow> datetime \<Rightarrow> store \<Rightarrow> (error + string) \<times> store" where
  "create_index kb now s =
     (case index_loop kb s categories
             (''# Knowledge Base Index\<newline>\<newline>'' @
              ''*Last updated: '' @ strftime_long now @ ''*\<newline>\<newline>'', 0) of
        Inl e \<Rightarrow> (Inl e, s)
      | Inr (index_content, total_docs) \<Rightarrow>
          let index_path = path_join (base_path kb) ''INDEX.md''
          in if ''INDEX.md'' \<in> fst ` set (folders s) then (Inl (IsADirectoryError index_path), s)
             else (Inr index_path,
                   s\<lparr>root_files :=
                        AList.update ''INDEX.md''
                          (index_content @ ''\<newline>---\<newline>**Total Documents: '' @
                           decimal total_docs @ ''**\<newline>'')
                          (root_files s)\<rparr>))"

section \<open>\<open>KnowledgeBase.search\<close>\<close>

text \<open>
  \<open>search_path\<close> is \<open>os.path.join(self.base_path, category)\<close> when \<open>category\<close> is a non-empty
  string and \<open>self.base_path\<close> otherwise.  A category is any string, so the path need not
  name a category folder: the operating system resolves it component by component, starting
  from the base directory.  An empty component and \<open>.\<close> stay where they are, \<open>..\<close> goes from a
  folder back to the base directory and from the base directory out of the knowledge base,
  a folder name enters that folder, and every other name (a regular file, nothing at all, or
  any name inside a folder, which holds regular files only) leads nowhere.  A category that starts with \<open>/\<close> makes \<open>os.path.join\<close> drop the base path, which
  leaves the knowledge base as well.
\<close>

datatype place = Base | Folder string | Nowhere | Outside

text \<open>\<open>s.split('/')\<close>\<close>

fun components :: "string \<Rightarrow> string list" where
  "components [] = [[]]"
| "components (c # cs) =
     (if c = CHR ''/'' then [] # components cs
      else (case components cs of [] \<Rightarrow> [[c]] | l # ls \<Rightarrow> (c # l) # ls))"

fun enter :: "store \<Rightarrow> string \<Rightarrow> place \<Rightarrow> place" where
  "enter s name Base =
     (if name = [] \<or> name = ''.'' then Base
      else if name = ''..'' then Outside
      else if name \<in> fst ` set (folders s) then Folder name
      else Nowhere)"
| "enter s name (Folder d) =
     (if name = [] \<or> name = ''.'' then Folder d
      else if name = ''..'' then Base
      else Nowhere)"
| "enter s name Nowhere = Nowhere"
| "enter s name Outside = Outside"

definition locate :: "store \<Rightarrow> string \<Rightarrow> place" where
  "locate s category =
     (if startswith category ''/'' then Outside else fold (enter s) (components category) Base)"

text \<open>
  What lies outside the knowledge base is not part of the store; it is an input of the model:
  \<open>elsewhere top\<close> is what \<open>os.walk(top)\<close> yields for a path \<open>top\<close> that leaves the knowledge
  base.

  \<open>os.walk(top)\<close> yields the directory \<open>top\<close> and then its sub-directories, each under the path
  \<open>os.path.join(top, name)\<close> and with the files it holds.  A directory that cannot be listed
  is passed over without an error: this is the case of a path that leads nowhere, of the
  empty path, and of a path of \<open>PATH_MAX\<close> bytes or more.  Only a NUL character in the path
  makes \<open>os.walk\<close> raise, a \<open>ValueError\<close>.
\<close>

type_synonym outside = "string \<Rightarrow> (string \<times> folder) list"

definition listable :: "string \<Rightarrow> bool" where
  "listable path = (path \<noteq> [] \<and> utf8_length path < PATH_MAX)"

definition walk :: "outside \<Rightarrow> store \<Rightarrow> string \<Rightarrow> place \<Rightarrow> error + (string \<times> folder) list" where
  "walk elsewhere s dir p =
     (if CHR 0x00 \<in> set dir then Inl (ValueError ''embedded null byte'')
      else if \<not> listable dir then Inr []
      else case p of
        Base \<Rightarrow>
          Inr ((dir, root_files s) #
               map (\<lambda>(d, files). (path_join dir d, files))
                   (filter (\<lambda>(d, files). listable (path_join dir d)) (folders s)))
      | Folder d \<Rightarrow>
          (case map_of (folders s) d of None \<Rightarrow> Inr [] | Some files \<Rightarrow> Inr [(dir, files)])
      | Nowhere \<Rightarrow> Inr []
      | Outside \<Rightarrow> Inr (elsewhere dir))"

text \<open>
  \<open>open(filepath, 'r')\<close> and \<open>f.read()\<close>.  The file is one that \<open>os.walk\<close> has just listed;
  opening it fails when its path has \<open>PATH_MAX\<close> bytes or more.  Reading in text mode turns
  every \<open>\r\n\<close> and every remaining \<open>\r\<close> into \<open>\n\<close>.
\<close>

fun translate_newlines :: "bool \<Rightarrow> string \<Rightarrow> string" where
  "translate_newlines after_cr [] = []"
| "translate_newlines after_cr (c # cs) =
     (if c = CHR 0x0D then CHR 0x0A # translate_newlines True cs
      else if c = CHR 0x0A \<and> after_cr then translate_newlines False cs
      else c # translate_newlines False cs)"

definition universal_newlines :: "string \<Rightarrow> string" where
  "universal_newlines s = translate_newlines False s"

definition open_read :: "string \<Rightarrow> string \<Rightarrow> error + string" where
  "open_read path stored =
     (if PATH_MAX \<le> utf8_length path then Inl (FileNameTooLongError path)
      else Inr (universal_newlines stored))"

text \<open>
  The inner loop of \<open>search\<close> over the files of one directory, and the outer loop over the
  directories of the walk.  An exception raised by \<open>open\<close> is not caught and ends the search.
\<close>

fun search_files :: "string \<Rightarrow> string \<Rightarrow> folder \<Rightarrow> error + string list" where
  "search_files query root [] = Inr []"
| "search_files query root ((file, stored) # files) =
     (if endswith file ''.md'' then
        (let filepath = path_join root file in
         case open_read filepath stored of
           Inl e \<Rightarrow> Inl e
         | Inr content \<Rightarrow>
             (case search_files query root files of
                Inl e \<Rightarrow> Inl e
              | Inr results \<Rightarrow>
                  Inr (if contains (lower content) (lower query) then filepath # results
                       else results)))
      else search_files query root files)"

fun search_loop :: "string \<Rightarrow> (string \<times> folder) list \<Rightarrow> error + string list" where
  "search_loop query [] = Inr []"
| "search_loop query ((root, files) # rest) =
     (case search_files query root files of
        Inl e \<Rightarrow> Inl e
      | Inr found \<Rightarrow>
          (case search_loop query rest of Inl e \<Rightarrow> Inl e | Inr others \<Rightarrow> Inr (found @ others)))"

definition search ::
  "knowledge_base \<Rightarrow> outside \<Rightarrow> string \<Rightarrow> string option \<Rightarrow> store \<Rightarrow> error + string list" where
  "search kb elsewhere query category s =
     (let (search_path, p) =
            (case category of
               None \<Rightarrow> (base_path kb, Base)
             | Some c \<Rightarrow>
                 if c \<noteq> [] then (path_join (base_path kb) c, locate s c)
                 else (base_path kb, Base))
      in case walk elsewhere s search_path p of
           Inl e \<Rightarrow> Inl e
         | Inr dirs \<Rightarrow> search_loop query dirs)"











section \<open>The research and documentation pipeline\<close>

text \<open>
  The text-generation service is outside the program.  A call either returns a response
  (its text and the model name it reports) or raises; what it does is an input of the
  model.  The prompt is built from the topic and the research material and is only ever
  passed to the service, so it is not represented.
\<close>

datatype llm_result = Response string string | Failure error

definition MODEL_NAME :: string where
  "MODEL_NAME = ''claude-3-5-haiku-20241022''"

text \<open>
  \<open>str(e)\<close>.  For the operating-system errors the text quotes the path the way \<open>repr\<close> does
  for a path of printable characters without quotes or backslashes.
\<close>

fun str_error :: "error \<Rightarrow> string" where
  "str_error (ValueError m) = m"
| "str_error (FileNotFoundError p) = ''[Errno 2] No such file or directory: '' @ [CHR 0x27] @ p @ [CHR 0x27]"
| "str_error (NotADirectoryError p) = ''[Errno 20] Not a directory: '' @ [CHR 0x27] @ p @ [CHR 0x27]"
| "str_error (IsADirectoryError p) = ''[Errno 21] Is a directory: '' @ [CHR 0x27] @ p @ [CHR 0x27]"
| "str_error (FileNameTooLongError p) = ''[Errno 36] File name too long: '' @ [CHR 0x27] @ p @ [CHR 0x27]"
| "str_error (APIConnectionError m) = m"
| "str_error (RateLimitError m) = m"
| "str_error (APIError m) = m"

text \<open>
  The clock readings of one run of the pipeline, one per call of \<open>datetime.now()\<close>, and what
  the service answers: one answer for the research call and one for each attempt of the
  synthesis call.
\<close>

record environment =
  research_reply :: llm_result
  synthesis_reply :: "nat \<Rightarrow> llm_result"
  now_research :: datetime
  now_research_name :: datetime
  now_research_created :: datetime
  now_fallback :: datetime
  now_publish :: datetime
  now_doc_name :: datetime
  now_doc_created :: datetime
  now_index :: datetime
  now_completed :: datetime

text \<open>
  Opening a path for reading.  A path is \<open>base_path/folder/name\<close>; anything else does not
  designate a file of the store.
\<close>

definition resolve :: "knowledge_base \<Rightarrow> string \<Rightarrow> (string \<times> string) option" where
  "resolve kb path =
     (let prefix = path_join (base_path kb) [] in
      if startswith path prefix then
        (let rest = drop (length prefix) path;
             dir = takeWhile (\<lambda>c. c \<noteq> CHR ''/'') rest;
             name = drop (Suc (length dir)) rest
         in if CHR ''/'' \<in> set rest \<and> CHR ''/'' \<notin> set name then Some (dir, name) else None)
      else None)"

definition read_path :: "knowledge_base \<Rightarrow> store \<Rightarrow> string \<Rightarrow> string option" where
  "read_path kb s path =
     (case resolve kb path of None \<Rightarrow> None | Some (dir, name) \<Rightarrow> read_file s dir name)"

subsection \<open>\<open>ResearchCuratorAgent\<close>\<close>

record findings =
  finding_topic :: string
  finding_summary :: string
  finding_researched_by :: string
  finding_timestamp :: string

definition research_topic :: "environment \<Rightarrow> string \<Rightarrow> findings" where
  "research_topic env topic_arg =
     (case research_reply env of
        Response research_content model \<Rightarrow>
          \<lparr>finding_topic = topic_arg, finding_summary = research_content,
           finding_researched_by = MODEL_NAME,
           finding_timestamp = isoformat (now_research env)\<rparr>
      | Failure e \<Rightarrow>
          \<lparr>finding_topic = topic_arg,
           finding_summary = ''Research on '' @ topic_arg @ '' (API Error: '' @ str_error e @ '')'',
           finding_researched_by = ''Fallback'',
           finding_timestamp = isoformat (now_research env)\<rparr>)"

text \<open>A call of \<open>add_document\<close> with a dictionary display as its \<open>metadata\<close> argument.\<close>

definition add_document_with ::
  "knowledge_base \<Rightarrow> datetime \<Rightarrow> datetime \<Rightarrow> string \<Rightarrow> string \<Rightarrow> string \<Rightarrow> dict \<Rightarrow>
   state \<Rightarrow> (error + string) \<times> state" where
  "add_document_with kb now1 now2 category title_arg content metadata st =
     (case alloc (heap st) metadata of
        (r, h) \<Rightarrow> add_document kb now1 now2 category title_arg content (Some r) (st\<lparr>heap := h\<rparr>))"

definition save_research :: "knowledge_base \<Rightarrow> environment \<Rightarrow> findings \<Rightarrow> state \<Rightarrow> (error + string) \<times> state" where
  "save_research kb env f st =
     add_document_with kb (now_research_name env) (now_research_created env)
       ''research'' (finding_topic f) (finding_summary f)
       [(''agent'', JStr ''Research Curator''),
        (''researched_by'', JStr (finding_researched_by f)),
        (''timestamp'', JStr (finding_timestamp f))]
       st"

subsection \<open>\<open>DocumentationWriterAgent\<close>\<close>

text \<open>
  \<open>_call_claude_with_retry\<close>: \<open>remaining\<close> counts the attempts still allowed, so the first call
  has \<open>attempt = 0\<close> and \<open>remaining = max_retries\<close>.  A connection or rate-limit failure is
  retried unless it was the last attempt; any other failure is raised at once.  A loop that
  runs out without an answer returns \<open>None\<close>.
\<close>

fun retryable :: "error \<Rightarrow> bool" where
  "retryable (APIConnectionError m) = True"
| "retryable (RateLimitError m) = True"
| "retryable e = False"

fun call_claude_with_retry :: "(nat \<Rightarrow> llm_result) \<Rightarrow> nat \<Rightarrow> nat \<Rightarrow> llm_result option" where
  "call_claude_with_retry reply attempt 0 = None"
| "call_claude_with_retry reply attempt (Suc remaining) =
     (case reply attempt of
        Response documentation model \<Rightarrow> Some (Response documentation model)
      | Failure e \<Rightarrow>
          if retryable e \<and> remaining \<noteq> 0
          then call_claude_with_retry reply (Suc attempt) remaining
          else Some (Failure e))"

record document =
  doc_title :: string
  doc_type :: string
  doc_content :: string
  doc_category :: string
  doc_written_by :: string
  doc_sources :: "string list option"

text \<open>The title is taken from the first line that starts with \<open># \<close>.\<close>

definition extract_title :: "string \<Rightarrow> string" where
  "extract_title documentation =
     (case filter (\<lambda>line. startswith line ''# '') (split_lines documentation) of
        [] \<Rightarrow> ''Documentation''
      | line # _ \<Rightarrow> strip (replace line ''# '' []))"

definition create_error_fallback ::
  "knowledge_base \<Rightarrow> environment \<Rightarrow> string list \<Rightarrow> string \<Rightarrow> state \<Rightarrow> document" where
  "create_error_fallback kb env research_files error_msg st =
     \<lparr>doc_title = ''Documentation (Error)'',
      doc_type = ''error'',
      doc_content =
        ''# Documentation Generation Failed\<newline>\<newline>**Error:** '' @ error_msg @
        ''\<newline>**Timestamp:** '' @ strftime_compact (now_fallback env) @
        ''\<newline>\<newline>## Research Sources\<newline>\<newline>'' @
        ''The following research was collected but could not be synthesized due to an error:\<newline>\<newline>'' @
        concat (map (\<lambda>file_path.
                  case read_path kb (fs st) file_path of
                    Some content \<Rightarrow>
                      ''\<newline>---\<newline>\<newline>### Source: '' @ file_path @ ''\<newline>\<newline>'' @ content @ ''\<newline>\<newline>''
                  | None \<Rightarrow>
                      ''\<newline>- Could not read '' @ file_path @ '': '' @
                      str_error (FileNotFoundError file_path) @ ''\<newline>'')
                research_files) @
        ''\<newline>---\<newline>\<newline>*Please check your API configuration and try again.*\<newline>'',
      doc_category = ''midnight'',
      doc_written_by = ''Fallback'',
      doc_sources = None\<rparr>"

definition synthesize_documentation ::
  "knowledge_base \<Rightarrow> environment \<Rightarrow> string list \<Rightarrow> string \<Rightarrow> state \<Rightarrow> document" where
  "synthesize_documentation kb env research_files doc_type_arg st =
     (let research_content =
            concat (map (\<lambda>file_path.
                      case read_path kb (fs st) file_path of
                        Some content \<Rightarrow>
                          [''## Source: '' @ file_path @ ''\<newline>\<newline>'' @ content @ ''\<newline>\<newline>'']
                      | None \<Rightarrow> [])
                    research_files)
      in if research_content = []
         then create_error_fallback kb env research_files
                ''No research content available to synthesize'' st
         else case call_claude_with_retry (synthesis_reply env) 0 3 of
                Some (Response documentation model) \<Rightarrow>
                  \<lparr>doc_title = extract_title documentation,
                   doc_type = doc_type_arg,
                   doc_content = documentation,
                   doc_category = ''midnight'',
                   doc_written_by = MODEL_NAME,
                   doc_sources = Some research_files\<rparr>
              | Some (Failure e) \<Rightarrow> create_error_fallback kb env research_files (str_error e) st
              | None \<Rightarrow>
                  create_error_fallback kb env research_files
                    [] st)"

definition publish_documentation ::
  "knowledge_base \<Rightarrow> environment \<Rightarrow> document \<Rightarrow> state \<Rightarrow> (error + string) \<times> state" where
  "publish_documentation kb env doc st =
     add_document_with kb (now_doc_name env) (now_doc_created env)
       (doc_category doc) (doc_title doc) (doc_content doc)
       [(''agent'', JStr ''Documentation Writer''),
        (''type'', JStr (doc_type doc)),
        (''written_by'', JStr (doc_written_by doc)),
        (''sources'', JArr (map JStr (case doc_sources doc of None \<Rightarrow> [] | Some paths \<Rightarrow> paths))),
        (''created_at'', JStr (strftime_compact (now_publish env)))]
       st"

subsection \<open>\<open>AgentOrchestrator.research_and_document\<close>\<close>

definition research_and_document ::
  "knowledge_base \<Rightarrow> environment \<Rightarrow> string \<Rightarrow> string \<Rightarrow> state \<Rightarrow>
   (error + string \<times> string \<times> string) \<times> state" where
  "research_and_document kb env topic_arg doc_type_arg st =
     (case save_research kb env (research_topic env topic_arg) st of
        (Inl e, st1) \<Rightarrow> (Inl e, st1)
      | (Inr research_file, st1) \<Rightarrow>
          let doc = synthesize_documentation kb env [research_file] doc_type_arg st1 in
          case publish_documentation kb env doc st1 of
            (Inl e, st2) \<Rightarrow> (Inl e, st2)
          | (Inr doc_file, st2) \<Rightarrow>
              case create_index kb (now_index env) (fs st2) of
                (Inl e, s3) \<Rightarrow> (Inl e, st2\<lparr>fs := s3\<rparr>)
              | (Inr index_file, s3) \<Rightarrow>
                  (Inr (research_file, doc_file, index_file), st2\<lparr>fs := s3\<rparr>))"

section \<open>Research tasks and the worker\<close>

text \<open>
  The task table of \<open>app.py\<close>: the rows in insertion order and the last identifier handed
  out by \<open>AUTOINCREMENT\<close>.  Empty strings stand for absent request fields and \<open>NULL\<close> texts.
\<close>

datatype status = Pending | Approved | Denied | Processing | Completed | Error

record task =
  task_id :: nat
  task_topic :: string
  task_context :: string
  task_source_type :: string
  task_source_url :: string
  task_status :: status
  task_created_at :: string
  task_completed_at :: "string option"
  task_error :: "string option"

record database =
  rows :: "task list"
  last_id :: nat

text \<open>\<open>UPDATE tasks SET ... WHERE id = ?\<close>\<close>

definition update_task :: "nat \<Rightarrow> (task \<Rightarrow> task) \<Rightarrow> database \<Rightarrow> database" where
  "update_task i f db = db\<lparr>rows := map (\<lambda>t. if task_id t = i then f t else t) (rows db)\<rparr>"




definition delete_task :: "nat \<Rightarrow> database \<Rightarrow> database" where
  "delete_task i db = db\<lparr>rows := filter (\<lambda>t. task_id t \<noteq> i) (rows db)\<rparr>"

text \<open>
  The tasks of \<open>web_dashboard.py\<close>: objects of the class \<open>ResearchTask\<close> in the dictionary
  \<open>tasks\<close>, the counter that numbers them, the queue of identifiers that
  \<open>background_researcher\<close> reads, and the dictionary \<open>research_results\<close>.  A result is the
  triple of paths that \<open>research_and_document\<close> returns.  The routes answer a task that is not
  there with 404, here \<^const>\<open>None\<close>; approving also puts the identifier on the research queue,
  and denying leaves the queue as it is.
\<close>

record research_task =
  rt_task_id :: nat
  rt_topic :: string
  rt_context :: string
  rt_source_type :: string
  rt_source_url :: string
  rt_status :: status
  rt_created_at :: datetime
  rt_result :: "(string \<times> string \<times> string) option"
  rt_error :: "string option"

record dashboard =
  tasks :: "(nat \<times> research_task) list"
  task_counter :: nat
  research_queue :: "nat list"
  research_results :: "(nat \<times> string \<times> string \<times> string) list"




definition api_delete_task :: "nat \<Rightarrow> dashboard \<Rightarrow> dashboard option" where
  "api_delete_task i d =
     (case map_of (tasks d) i of
        None \<Rightarrow> None
      | Some t \<Rightarrow> Some (d\<lparr>tasks := AList.delete i (tasks d)\<rparr>))"

subsection \<open>\<open>research_worker.py\<close>\<close>

definition determine_category :: "string \<Rightarrow> string \<Rightarrow> string" where
  "determine_category topic_arg context_arg =
     (let combined = lower topic_arg @ '' '' @ lower context_arg in
      if list_ex (contains combined)
           [''plutus'', ''aiken'', ''marlowe'', ''smart contract'', ''smartcontract'', ''contract'']
      then ''smart_contracts''
      else if list_ex (contains combined)
           [''midnight'', ''zk'', ''zero-knowledge'', ''zero knowledge'', ''zkproof'']
      then ''midnight''
      else if list_ex (contains combined) [''cardano'', ''ada'', ''stake pool'', ''node'']
      then ''cardano''
      else if list_ex (contains combined) [''healthcare'', ''health'', ''medical'']
      then ''healthcare''
      else if list_ex (contains combined) [''competitor'', ''ethereum'', ''solana'', ''polkadot'']
      then ''competitors''
      else if list_ex (contains combined) [''architecture'', ''design'', ''system'']
      then ''architecture''
      else ''research'')"

text \<open>
  \<open>shutil.move\<close> of a file of the store into the folder of the category, under the same
  name; a path that designates no file is skipped.  \<open>KB_DIR\<close> and the \<open>base_path\<close> of the
  knowledge base are the same directory.
\<close>

definition move_file :: "knowledge_base \<Rightarrow> string \<Rightarrow> string \<Rightarrow> store \<Rightarrow> store" where
  "move_file kb path category s =
     (case resolve kb path of
        None \<Rightarrow> s
      | Some (dir, name) \<Rightarrow>
          (case read_file s dir name of
             None \<Rightarrow> s
           | Some content \<Rightarrow>
               if dir = category then s
               else s\<lparr>folders :=
                       map (\<lambda>(d, files).
                              if d = dir then (d, AList.delete name files)
                              else if d = category then (d, AList.update name content files)
                              else (d, files))
                           (folders s)\<rparr>))"

definition move_files_to_category ::
  "knowledge_base \<Rightarrow> string \<Rightarrow> string \<Rightarrow> string \<Rightarrow> store \<Rightarrow> store" where
  "move_files_to_category kb research_file doc_file category s =
     move_file kb doc_file category (move_file kb research_file category (makedirs category s))"

definition default_kb :: knowledge_base where
  "default_kb = \<lparr>base_path = ''./knowledge_base''\<rparr>"

text \<open>
  \<open>process_task\<close> in its two parts: up to the commit of the status \<open>processing\<close>, and from the
  construction of the knowledge base to the final commit.  Every exception of the second
  part ends in the status \<open>error\<close> with the text of the exception.
\<close>

definition process_task_begin :: "task \<Rightarrow> database \<Rightarrow> database" where
  "process_task_begin t db = update_task (task_id t) (\<lambda>r. r\<lparr>task_status := Processing\<rparr>) db"

definition process_task_finish ::
  "environment \<Rightarrow> task \<Rightarrow> database \<times> state \<Rightarrow> database \<times> state" where
  "process_task_finish env t dbst =
     (case dbst of (db, st) \<Rightarrow>
      let category = determine_category (task_topic t) (task_context t);
          kb = default_kb;
          st0 = st\<lparr>fs := initialize_structure (fs st)\<rparr>
      in case research_and_document kb env (task_topic t) ''guide'' st0 of
           (Inl e, st1) \<Rightarrow>
             (update_task (task_id t)
                (\<lambda>r. r\<lparr>task_status := Error, task_error := Some (str_error e)\<rparr>) db, st1)
         | (Inr (research_file, doc_file, index_file), st1) \<Rightarrow>
             (update_task (task_id t)
                (\<lambda>r. r\<lparr>task_status := Completed,
                        task_completed_at := Some (isoformat (now_completed env))\<rparr>) db,
              st1\<lparr>fs := move_files_to_category kb research_file doc_file category (fs st1)\<rparr>))"

definition process_task ::
  "environment \<Rightarrow> task \<Rightarrow> database \<times> state \<Rightarrow> database \<times> state" where
  "process_task env t dbst =
     (case dbst of (db, st) \<Rightarrow> process_task_finish env t (process_task_begin t db, st))"


subsection \<open>\<open>background_researcher\<close> of \<open>web_dashboard.py\<close>\<close>

text \<open>
  One round of the loop of \<open>background_researcher\<close>, in its two parts.  The first part takes
  the next identifier from the queue; an empty queue or an identifier that is no longer in
  \<open>tasks\<close> ends the round, and otherwise the task becomes \<open>processing\<close>, whatever its status
  was.  The second part runs the pipeline for the task taken and records \<open>completed\<close> with
  the result, or \<open>error\<close> with the text of the exception.  The thread holds the task object
  itself, so its assignments reach the dictionary as long as the task has not been deleted
  from it.  The context handed to the pipeline, extended by the source, only enters the
  prompt.  The knowledge base is the one the module creates when it is loaded.
\<close>

definition set_task :: "nat \<Rightarrow> (research_task \<Rightarrow> research_task) \<Rightarrow> dashboard \<Rightarrow> dashboard" where
  "set_task i f d = d\<lparr>tasks := AList.map_entry i f (tasks d)\<rparr>"



subsection \<open>The system as a whole\<close>

text \<open>
  The web application and the worker are two processes on one task table.  A step of the
  system is one request to the application, the poll of the worker (which, on finding a
  task, commits \<open>processing\<close> and holds the row it fetched), or the rest of \<open>process_task\<close>
  for the row the worker holds.
\<close>

record system =
  db :: database
  world :: state
  worker :: "task option"








definition board_status :: "dashboard \<Rightarrow> nat \<Rightarrow> status option" where
  "board_status d i = map_option rt_status (map_of (tasks d) i)"


section \<open>Auxiliary notions\<close>

text \<open>
  Two properties of texts used in the proofs: every line feed is followed by a space (so
  every line but the first is indented), and a character is a decimal digit.
\<close>

text \<open>
  The layout of one section of the index and of its footer, given the file names listed in
  the section; and the layout the constructor of \<open>KnowledgeBase\<close> leaves on disk: every
  category has its folder, and \<open>INDEX.md\<close> is not the name of a folder.
\<close>

definition index_section :: "string \<Rightarrow> string \<Rightarrow> string list \<Rightarrow> string" where
  "index_section category description listed =
     ''## '' @ str_title category @ ''\<newline>'' @ ''*'' @ description @ ''*\<newline>\<newline>'' @
     (if listed = [] then ''*No documents yet*\<newline>''
      else concat (map (index_entry category) listed)) @ ''\<newline>''"

definition index_footer :: "nat \<Rightarrow> string" where
  "index_footer total_docs = ''\<newline>---\<newline>**Total Documents: '' @ decimal total_docs @ ''**\<newline>''"

definition folder_names :: "store \<Rightarrow> string \<Rightarrow> string list" where
  "folder_names s dir = (case map_of (folders s) dir of None \<Rightarrow> [] | Some files \<Rightarrow> map fst files)"

definition md_listing :: "store \<Rightarrow> string \<Rightarrow> string list" where
  "md_listing s dir = rev (sort (filter (\<lambda>f. endswith f ''.md'') (folder_names s dir)))"

definition index_rest :: "store \<Rightarrow> string" where
  "index_rest s =
     concat (map (\<lambda>(c, d). index_section c d (md_listing s c)) categories) @
     index_footer (sum_list (map (\<lambda>(c, d). length (md_listing s c)) categories))"

definition index_text :: "datetime \<Rightarrow> store \<Rightarrow> string" where
  "index_text now s =
     ''# Knowledge Base Index\<newline>\<newline>'' @ ''*Last updated: '' @ strftime_long now @ ''*\<newline>\<newline>'' @
     index_rest s"

definition kb_store :: "store \<Rightarrow> bool" where
  "kb_store s = (fst ` set categories \<subseteq> fst ` set (folders s)
                 \<and> ''INDEX.md'' \<notin> fst ` set (folders s))"


text \<open>
  The task dictionary of the dashboard is well formed when none of its keys exceeds the
  counter, which only grows.
\<close>

definition board_ok :: "dashboard \<Rightarrow> bool" where
  "board_ok d = (\<forall>k \<in> fst ` set (tasks d). k \<le> task_counter d)"

text \<open>
  The name and the text of the file that \<open>add_document\<close> writes, and the entries it puts into
  the dictionary.
\<close>

definition document_name :: "datetime \<Rightarrow> string \<Rightarrow> string" where
  "document_name now title_arg =
     strftime_compact now @ ''_'' @ replace title_arg '' '' ''_'' @ ''.md''"

definition document_text :: "dict \<Rightarrow> string \<Rightarrow> string \<Rightarrow> string" where
  "document_text m title_arg content =
     ''---\<newline>'' @ dumps 0 (JObj m) @ ''\<newline>---\<newline>\<newline>'' @ ''# '' @ title_arg @ ''\<newline>\<newline>'' @ content"

definition creation_entries :: "datetime \<Rightarrow> string \<Rightarrow> string \<Rightarrow> dict" where
  "creation_entries now category title_arg =
     [(''created'', JStr (isoformat now)), (''category'', JStr category),
      (''title'', JStr title_arg)]"


definition is_digit :: "char \<Rightarrow> bool" where
  "is_digit c = (48 \<le> (of_char c :: nat) \<and> (of_char c :: nat) \<le> 57)"

section \<open>A small knowledge base for examples\<close>

definition demo_kb :: knowledge_base where
  "demo_kb = \<lparr>base_path = ''./knowledge_base''\<rparr>"

definition demo_time :: datetime where
  "demo_time = \<lparr>year = 2025, month = 1, day = 6, hour = 9, minute = 5, second = 7, microsecond = 0\<rparr>"

definition demo_later :: datetime where
  "demo_later = \<lparr>year = 2025, month = 1, day = 6, hour = 9, minute = 5, second = 11, microsecond = 0\<rparr>"

definition demo_store :: store where
  "demo_store =
     \<lparr>root_files = [],
      folders = [(''midnight'', [(''20250105_101500_Dust.md'', ''Privacy by design''),
                                (''20250106_080000_Night_Token.md'', ''the PRIVACY token''),
                                (''notes.txt'', ''privacy'')]),
                 (''cardano'', []), (''healthcare'', []), (''zkproofs'', []),
                 (''competitors'', []), (''architecture'', []), (''smart_contracts'', []),
                 (''research'', [(''20250104_120000_Raw.md'', ''raw findings'')])]\<rparr>"


definition nothing_outside :: outside where
  "nothing_outside dir = []"






section \<open>Properties of the classifier\<close>

lemma contains_Nil [simp]: "contains s []"
  by (cases s) (simp_all add: startswith_def)

lemma contains_if_startswith: "startswith s sub \<Longrightarrow> contains s sub"
  by (cases s) (simp_all add: startswith_def)

lemma contains_tl: "contains (tl s) sub \<Longrightarrow> s \<noteq> [] \<Longrightarrow> contains s sub"
  by (cases s) simp_all

lemma count_eq_0: "\<not> contains s sub \<Longrightarrow> count s sub = 0"
proof (induction s sub rule: count.induct)
  case (1 s sub)
  show ?case
  proof (cases "sub = [] \<or> length s < length sub")
    case True
    with "1.prems" show ?thesis by (subst count.simps) auto
  next
    case False
    then have ne: "s \<noteq> []" by auto
    from "1.prems" have ns: "\<not> startswith s sub" using contains_if_startswith by blast
    from "1.prems" ne have "\<not> contains (tl s) sub" using contains_tl by blast
    with "1.IH"(2) False ns have "count (tl s) sub = 0" by simp
    with False ns show ?thesis by (subst count.simps) simp
  qed
qed

lemma fold_weight:
  "fold (\<lambda>keyword weight. if contains text keyword then weight + count text keyword else weight)
        kws a = a + sum_list (map (count text) kws)"
  by (induction kws arbitrary: a) (simp_all add: count_eq_0)

lemma keyword_weight_sum: "keyword_weight text kws = sum_list (map (count text) kws)"
  by (simp add: keyword_weight_def fold_weight)

lemma pick_best_Nil [simp]: "pick_best [] a = a"
  by (simp add: pick_best_def)

lemma pick_best_Cons [simp]:
  "pick_best ((c, w) # ws) (m, b) = pick_best ws (if w > m then (w, c) else (m, b))"
  by (simp add: pick_best_def)

lemma pick_best_append: "pick_best (xs @ ys) a = pick_best ys (pick_best xs a)"
  by (simp add: pick_best_def)

lemma pick_best_keep:
  "\<forall>p \<in> set ws. snd p \<le> m \<Longrightarrow> pick_best ws (m, b) = (m, b)"
  by (induction ws) auto

lemma pick_best_below:
  "\<forall>p \<in> set ws. snd p < w \<Longrightarrow> m < w \<Longrightarrow> fst (pick_best ws (m, b)) < w"
  by (induction ws arbitrary: m b) auto

lemma pick_best_first_max:
  assumes "\<forall>p \<in> set before. snd p < w" and "m < w" and "\<forall>p \<in> set after. snd p \<le> w"
  shows "pick_best (before @ (c, w) # after) (m, b) = (w, c)"
proof -
  obtain m' b' where p: "pick_best before (m, b) = (m', b')" by (cases "pick_best before (m, b)")
  with pick_best_below [OF assms(1,2), of b] have "m' < w" by simp
  with p assms(3) show ?thesis by (simp add: pick_best_append pick_best_keep)
qed

lemma category_weights_append:
  assumes "category_patterns = before @ (category, kws) # after"
  shows "category_weights text =
     map (\<lambda>(c, k). (c, keyword_weight text k)) before @ (category, keyword_weight text kws)
       # map (\<lambda>(c, k). (c, keyword_weight text k)) after"
  unfolding category_weights_def assms by simp



text \<open>
  Claim C4, as amended.  The text that is searched is the lower-cased
  \<open>topic + " " + context + " " + source_url\<close>, with one space between the parts.  Every
  category's weight is the sum over its keywords of the number of non-overlapping occurrences
  of the keyword in that text, and a category whose weight is positive, strictly greater than
  the weight of every category before it in the table and not smaller than the weight of any
  category after it is the one returned.
\<close>

theorem detect_category_weighted:
  "category_weights (combined_text topic context source_url) =
     map (\<lambda>(category, kws).
            (category, sum_list (map (count (lower (topic @ '' '' @ context @ '' '' @ source_url))) kws)))
         category_patterns
   \<and> (\<forall>before category kws after.
        category_patterns = before @ (category, kws) # after \<and>
        0 < keyword_weight (combined_text topic context source_url) kws \<and>
        (\<forall>(c, k) \<in> set before. keyword_weight (combined_text topic context source_url) k
                                 < keyword_weight (combined_text topic context source_url) kws) \<and>
        (\<forall>(c, k) \<in> set after. keyword_weight (combined_text topic context source_url) k
                                 \<le> keyword_weight (combined_text topic context source_url) kws)
        \<longrightarrow> detect_category topic context source_url = category)"
proof (intro conjI allI impI)
  show "category_weights (combined_text topic context source_url) =
     map (\<lambda>(category, kws).
            (category, sum_list (map (count (lower (topic @ '' '' @ context @ '' '' @ source_url))) kws)))
         category_patterns"
    by (simp add: category_weights_def keyword_weight_sum combined_text_def)
next
  fix before category kws after
  let ?text = "combined_text topic context source_url"
  let ?W = "keyword_weight ?text"
  assume h: "category_patterns = before @ (category, kws) # after \<and> 0 < ?W kws \<and>
        (\<forall>(c, k) \<in> set before. ?W k < ?W kws) \<and> (\<forall>(c, k) \<in> set after. ?W k \<le> ?W kws)"
  let ?f = "\<lambda>(c, k). (c, ?W k)"
  have "pick_best (map ?f before @ (category, ?W kws) # map ?f after) (0, ''research'')
          = (?W kws, category)"
    using h by (intro pick_best_first_max) auto
  moreover from h have "category_patterns = before @ (category, kws) # after" by simp
  ultimately have "pick_best (category_weights ?text) (0, ''research'') = (?W kws, category)"
    by (simp only: category_weights_append)
  with h show "detect_category topic context source_url = category"
    by (simp add: detect_category_def)
qed

theorem detect_category_weighted_witness:
  "detect_category ''Midnight zero-knowledge proofs'' '''' '''' = ''midnight''"
proof -
  let ?text = "combined_text ''Midnight zero-knowledge proofs'' '''' ''''"
  have d: "category_patterns = [category_patterns ! 0] @ (''midnight'', snd (category_patterns ! 1)) # drop 2 category_patterns"
    by (simp add: category_patterns_def)
  have w: "0 < keyword_weight ?text (snd (category_patterns ! 1))" by code_simp
  have b: "\<forall>(c, k) \<in> set [category_patterns ! 0]. keyword_weight ?text k < keyword_weight ?text (snd (category_patterns ! 1))"
    by code_simp
  have a: "\<forall>(c, k) \<in> set (drop 2 category_patterns). keyword_weight ?text k \<le> keyword_weight ?text (snd (category_patterns ! 1))"
    by code_simp
  from detect_category_weighted [of "''Midnight zero-knowledge proofs''" "''''" "''''"] d w b a
  show ?thesis by blast
qed

text \<open>
  With the parts concatenated without separators, as claim C4 is worded, the input
  \<open>("stake", "pool", "")\<close> gives every category the weight zero; the code finds the keyword
  \<open>stake pool\<close> once and answers \<open>cardano\<close>.
\<close>

theorem plain_concatenation_counterexample:
  "detect_category ''stake'' ''pool'' '''' = ''cardano''
   \<and> map_of (category_weights (combined_text ''stake'' ''pool'' '''')) ''cardano'' = Some 1
   \<and> list_all (\<lambda>(category, kws). plain_concat_weight ''stake'' ''pool'' '''' kws = 0)
         category_patterns"
  by code_simp


section \<open>Lines of a text\<close>

lemma split_lines_not_Nil [simp]: "split_lines s \<noteq> []"
  by (induction s) (auto split: list.splits)

lemma split_lines_Cons_other:
  "c \<noteq> CHR 0x0A \<Longrightarrow> split_lines (c # cs) = (c # hd (split_lines cs)) # tl (split_lines cs)"
  by (cases "split_lines cs") simp_all

lemma split_lines_no_newline: "CHR 0x0A \<notin> set s \<Longrightarrow> split_lines s = [s]"
  by (induction s) (auto simp: split_lines_Cons_other)

lemma split_lines_append_newline:
  "split_lines (a @ CHR 0x0A # b) = split_lines a @ split_lines b"
proof (induction a)
  case Nil
  show ?case by (cases "split_lines b") simp_all
next
  case (Cons c a)
  show ?case
  proof (cases "c = CHR 0x0A")
    case True
    with Cons show ?thesis by simp
  next
    case False
    obtain l ls where "split_lines a = l # ls" by (cases "split_lines a") simp_all
    with False Cons show ?thesis by (simp add: split_lines_Cons_other)
  qed
qed




section \<open>Indented texts\<close>






section \<open>Digits and escapes\<close>

lemma of_char_digit_char: "n < 10 \<Longrightarrow> (of_char (digit_char n) :: nat) = 48 + n"
  by (simp add: digit_char_def)

lemma is_digit_digit_char: "n < 10 \<Longrightarrow> is_digit (digit_char n)"
  by (simp add: is_digit_def of_char_digit_char)

lemma decimal_digits: "\<forall>c \<in> set (decimal n). is_digit c"
proof (induction n rule: decimal.induct)
  case (1 n)
  show ?case
  proof (cases "n < 10")
    case True
    then show ?thesis by (subst decimal.simps) (simp add: is_digit_digit_char)
  next
    case False
    with 1 have "\<forall>c \<in> set (decimal (n div 10)). is_digit c" by simp
    moreover have "is_digit (digit_char (n mod 10))" by (rule is_digit_digit_char) simp
    ultimately show ?thesis using False by (subst decimal.simps) auto
  qed
qed

lemma is_digit_zero: "is_digit (CHR ''0'')"
  by (simp add: is_digit_def)

lemma zero_pad_digits: "\<forall>c \<in> set (zero_pad w n). is_digit c"
  using decimal_digits [of n] by (auto simp: zero_pad_def is_digit_zero)

lemma is_digit_not_special:
  "is_digit c \<Longrightarrow> c \<noteq> CHR ''/'' \<and> c \<noteq> CHR 0x00 \<and> c \<noteq> CHR 0x0A \<and> c \<noteq> CHR ''_''"
  by (auto simp: is_digit_def)


lemma strftime_long_chars: "CHR 0x0A \<notin> set (strftime_long d)"
  using zero_pad_digits is_digit_not_special by (auto simp: strftime_long_def)





section \<open>The JSON header\<close>









section \<open>Properties of \<open>add_document\<close>\<close>







lemma map_of_dict_update3:
  "map_of (dict_update d [(k1, v1), (k2, v2), (k3, v3)]) = (map_of d)(k1 \<mapsto> v1, k2 \<mapsto> v2, k3 \<mapsto> v3)"
  by (simp add: dict_update_def update_conv')


lemma folder_exists:
  "dir \<in> fst ` set (folders s) \<Longrightarrow> \<exists>files. map_of (folders s) dir = Some files"
  by (metis domIff dom_map_of_conv_image_fst not_Some_eq)


lemma deref_nonempty: "deref h r \<noteq> [] \<Longrightarrow> r < length h"
  by (cases "r < length h") (simp_all add: deref_def)

lemma metadata_or_empty:
  assumes "(case metadata of
                  None \<Rightarrow> alloc (heap st) []
                | Some r \<Rightarrow> if deref (heap st) r \<noteq> [] then (r, heap st) else alloc (heap st) [])
               = (ref, h1)"
  shows "ref < length h1"
proof (cases metadata)
  case None
  with assms show ?thesis by (auto simp: alloc_def)
next
  case (Some r)
  show ?thesis
  proof (cases "deref (heap st) r \<noteq> []")
    case True
    with assms Some have "ref = r" "h1 = heap st" by simp_all
    with True show ?thesis by (simp add: deref_nonempty)
  next
    case False
    with assms Some show ?thesis by (auto simp: alloc_def)
  qed
qed


lemma add_document_valid:
  assumes "category \<in> fst ` set categories"
    and c: "(case metadata of
        None \<Rightarrow> alloc (heap st) []
      | Some r \<Rightarrow> if deref (heap st) r \<noteq> [] then (r, heap st) else alloc (heap st) []) = (ref, h1)"
  shows "add_document kb now1 now2 category title content metadata st =
        (let filename = strftime_compact now1 @ ''_'' @ replace title '' '' ''_'' @ ''.md'';
             filepath = path_join (path_join (base_path kb) category) filename;
             m = dict_update (h1 ! ref)
                     [(''created'', JStr (isoformat now2)),
                      (''category'', JStr category),
                      (''title'', JStr title)];
             text = ''---\<newline>'' @ dumps 0 (JObj m) @ ''\<newline>---\<newline>\<newline>'' @
                   ''# '' @ title @ ''\<newline>\<newline>'' @ content
         in case open_write filepath category filename text (fs st) of
             Inl e \<Rightarrow> (Inl e, st\<lparr>heap := h1[ref := m]\<rparr>)
           | Inr fs' \<Rightarrow> (Inr filepath, st\<lparr>heap := h1[ref := m], fs := fs'\<rparr>))"
proof -
  have lt: "ref < length h1" using c by (rule metadata_or_empty)
  then have d: "deref h1 ref = h1 ! ref" "deref (h1[ref := x]) ref = x" for x
    by (simp_all add: deref_def)
  show ?thesis
    unfolding add_document_def c Let_def prod.case d using assms(1) by (simp only: simp_thms if_False)
qed






text \<open>
  The limit on the length of the file name is met by a title of 237 letters: with the time
  stamp, the underscore and \<open>.md\<close> the name has 256 bytes, and \<open>open\<close> raises \<open>OSError\<close> with
  \<open>errno\<close> 36.
\<close>

lemma add_document_long_title:
  "fst (add_document \<lparr>base_path = ''./knowledge_base''\<rparr>
          \<lparr>year = 2025, month = 1, day = 6, hour = 9, minute = 5, second = 7, microsecond = 0\<rparr>
          \<lparr>year = 2025, month = 1, day = 6, hour = 9, minute = 5, second = 7, microsecond = 0\<rparr>
          ''midnight'' (replicate 237 CHR ''a'') ''body'' None
          \<lparr>heap = [], fs = initialize_structure \<lparr>root_files = [], folders = []\<rparr>\<rparr>)
   = Inl (FileNameTooLongError
            (''./knowledge_base/midnight/20250106_090507_'' @ replicate 237 CHR ''a'' @ ''.md''))"
  by code_simp

text \<open>
  Claim C2.  For a category outside the fixed set of categories, \<open>add_document\<close> raises
  \<open>ValueError("Invalid category: ...")\<close>, the \<open>InvalidCategory\<close> failure of the specification,
  and leaves the whole state (the store and every dictionary) as it was.
\<close>

theorem add_document_invalid_category:
  "category \<notin> fst ` set categories \<Longrightarrow>
   add_document kb now1 now2 category title content metadata st =
     (Inl (ValueError (''Invalid category: '' @ category)), st)"
  by (simp add: add_document_def)

theorem add_document_invalid_category_witness:
  "add_document \<lparr>base_path = ''./knowledge_base''\<rparr>
          \<lparr>year = 2025, month = 1, day = 6, hour = 9, minute = 5, second = 7, microsecond = 0\<rparr>
          \<lparr>year = 2025, month = 1, day = 6, hour = 9, minute = 5, second = 7, microsecond = 9\<rparr>
          ''blog'' ''Dust'' ''body'' None
          \<lparr>heap = [], fs = initialize_structure \<lparr>root_files = [], folders = []\<rparr>\<rparr>
   = (Inl (ValueError ''Invalid category: blog''),
      \<lparr>heap = [], fs = initialize_structure \<lparr>root_files = [], folders = []\<rparr>\<rparr>)"
proof -
  have "''blog'' \<notin> fst ` set categories" by code_simp
  from add_document_invalid_category [OF this] show ?thesis by simp
qed

text \<open>
  Claim C10, as amended.  When the category is valid and the caller passes a non-empty
  dictionary, that very dictionary is updated: after the call, whether it returned a path or
  raised on opening the file, the caller's dictionary has the entries \<open>created\<close>, \<open>category\<close>
  and \<open>title\<close> of this document and keeps every other entry.
\<close>

theorem add_document_updates_metadata:
  assumes "category \<in> fst ` set categories"
    and "r < length (heap st)" and "heap st ! r \<noteq> []"
  shows "let h' = heap (snd (add_document kb now1 now2 category title content (Some r) st)) in
           h' ! r = dict_update (heap st ! r)
                      [(''created'', JStr (isoformat now2)),
                       (''category'', JStr category),
                       (''title'', JStr title)]
         \<and> map_of (h' ! r) ''created'' = Some (JStr (isoformat now2))
         \<and> map_of (h' ! r) ''category'' = Some (JStr category)
         \<and> map_of (h' ! r) ''title'' = Some (JStr title)
         \<and> (\<forall>k. k \<notin> {''created'', ''category'', ''title''} \<longrightarrow>
                map_of (h' ! r) k = map_of (heap st ! r) k)"
proof -
  have d: "deref (heap st) r \<noteq> []" using assms(2,3) by (simp add: deref_def)
  then have c: "(case Some r of
        None \<Rightarrow> alloc (heap st) []
      | Some r \<Rightarrow> if deref (heap st) r \<noteq> [] then (r, heap st) else alloc (heap st) [])
      = (r, heap st)" by simp
  define m where "m = dict_update (heap st ! r)
                      [(''created'', JStr (isoformat now2)),
                       (''category'', JStr category),
                       (''title'', JStr title)]"
  have "heap (snd (add_document kb now1 now2 category title content (Some r) st))
          = (heap st)[r := m]"
    unfolding add_document_valid [OF assms(1) c] Let_def m_def
    by (simp split: sum.split)
  then have h: "heap (snd (add_document kb now1 now2 category title content (Some r) st)) ! r = m"
    using assms(2) by simp
  have mm: "map_of m = (map_of (heap st ! r))(''created'' \<mapsto> JStr (isoformat now2),
      ''category'' \<mapsto> JStr category, ''title'' \<mapsto> JStr title)"
    unfolding m_def by (rule map_of_dict_update3)
  show ?thesis unfolding Let_def h by (simp add: mm m_def [symmetric])
qed


theorem add_document_updates_metadata_witness:
  "map_of (heap (snd (add_document \<lparr>base_path = ''./knowledge_base''\<rparr>
          \<lparr>year = 2025, month = 1, day = 6, hour = 9, minute = 5, second = 7, microsecond = 0\<rparr>
          \<lparr>year = 2025, month = 1, day = 6, hour = 9, minute = 5, second = 8, microsecond = 0\<rparr>
          ''research'' ''Dust'' ''body'' (Some 0)
          \<lparr>heap = [[(''agent'', JStr ''Research Curator'')]],
            fs = initialize_structure \<lparr>root_files = [], folders = []\<rparr>\<rparr>)) ! 0) ''title''
   = Some (JStr ''Dust'')"
proof -
  let ?st = "\<lparr>heap = [[(''agent'', JStr ''Research Curator'')]],
            fs = initialize_structure \<lparr>root_files = [], folders = []\<rparr>\<rparr>"
  have 1: "''research'' \<in> fst ` set categories" by code_simp
  have 2: "0 < length (heap ?st)" "heap ?st ! 0 \<noteq> []" by simp_all
  from add_document_updates_metadata [OF 1 2, where title = "''Dust''"]
  show ?thesis unfolding Let_def by blast
qed

text \<open>
  Claim C10 as worded speaks of any call.  With an invalid category the exception is raised
  before the dictionary is touched, and the caller's dictionary is left unchanged.
\<close>

theorem add_document_invalid_category_keeps_metadata:
  "heap (snd (add_document \<lparr>base_path = ''./knowledge_base''\<rparr>
          \<lparr>year = 2025, month = 1, day = 6, hour = 9, minute = 5, second = 7, microsecond = 0\<rparr>
          \<lparr>year = 2025, month = 1, day = 6, hour = 9, minute = 5, second = 8, microsecond = 0\<rparr>
          ''blog'' ''Dust'' ''body'' (Some 0)
          \<lparr>heap = [[(''agent'', JStr ''Research Curator'')]],
            fs = initialize_structure \<lparr>root_files = [], folders = []\<rparr>\<rparr>)) ! 0
   = [(''agent'', JStr ''Research Curator'')]"
  by code_simp

section \<open>Properties of the index\<close>

lemma sort_Nil_iff: "sort xs = [] \<longleftrightarrow> xs = []"
  by (metis length_0_conv length_sort)

lemma index_category_ok:
  assumes "category \<in> fst ` set (folders s)"
  shows "index_category kb s (category, description) (content, n) =
     Inr (content @ index_section category description (md_listing s category),
          n + length (md_listing s category))"
proof -
  obtain files where f: "map_of (folders s) category = Some files"
    using folder_exists [OF assms] by blast
  define names where "names = filter (\<lambda>f. endswith f ''.md'') (map fst files)"
  have l: "listdir kb s category = Inr (map fst files)" by (simp add: listdir_def f)
  have m: "md_listing s category = rev (sort names)"
    by (simp add: md_listing_def folder_names_def f names_def)
  have e: "rev (sort names) = [] \<longleftrightarrow> names = []" by (simp add: sort_Nil_iff)
  show ?thesis
    unfolding index_category_def prod.case l sum.case Let_def m index_section_def e
      names_def [symmetric]
    by simp
qed

lemma index_loop_ok:
  assumes "fst ` set cds \<subseteq> fst ` set (folders s)"
  shows "index_loop kb s cds (content, n) =
     Inr (content @ concat (map (\<lambda>(c, d). index_section c d (md_listing s c)) cds),
          n + sum_list (map (\<lambda>(c, d). length (md_listing s c)) cds))"
  using assms
proof (induction cds arbitrary: content n)
  case Nil
  show ?case by simp
next
  case (Cons cd cds)
  obtain c d where cd: "cd = (c, d)" by (cases cd)
  with Cons.prems have c: "c \<in> fst ` set (folders s)" by auto
  from Cons.prems have rest: "fst ` set cds \<subseteq> fst ` set (folders s)" by auto
  show ?case
    by (simp add: cd index_category_ok [OF c] Cons.IH [OF rest] add.assoc)
qed

lemma md_listing_cong: "folders s' = folders s \<Longrightarrow> md_listing s' c = md_listing s c"
  by (simp add: md_listing_def folder_names_def)

lemma create_index_ok:
  assumes "kb_store s"
  shows "create_index kb now s =
     (Inr (path_join (base_path kb) ''INDEX.md''),
      s\<lparr>root_files := AList.update ''INDEX.md'' (index_text now s) (root_files s)\<rparr>)"
proof -
  from assms have 1: "fst ` set categories \<subseteq> fst ` set (folders s)"
    and 2: "''INDEX.md'' \<notin> fst ` set (folders s)" by (simp_all add: kb_store_def)
  show ?thesis
    unfolding create_index_def index_loop_ok [OF 1] using 2
    by (simp add: index_footer_def index_text_def index_rest_def)
qed

lemma index_rest_cong:
  assumes "folders s' = folders s"
  shows "index_rest s' = index_rest s"
  unfolding index_rest_def md_listing_cong [OF assms] by (rule refl)

lemma kb_store_cong: "folders s' = folders s \<Longrightarrow> kb_store s' = kb_store s"
  by (simp add: kb_store_def)

lemma md_listing_props:
  "mset (md_listing s c) = mset (filter (\<lambda>f. endswith f ''.md'') (folder_names s c))"
  "sorted (rev (md_listing s c))"
  by (simp_all add: md_listing_def)

lemma index_section_text:
  "index_section category description listed =
     ''## '' @ str_title category @ ''\<newline>'' @ ''*'' @ description @ ''*\<newline>\<newline>'' @
     (if listed = [] then ''*No documents yet*\<newline>''
      else concat (map (\<lambda>file. ''- ['' @ replace (replace file ''.md'' []) ''_'' '' '' @ '']('' @
                                  category @ ''/'' @ file @ '')\<newline>'') listed)) @
     ''\<newline>''"
proof -
  have "index_entry category = (\<lambda>file. ''- ['' @ replace (replace file ''.md'' []) ''_'' '' '' @ '']('' @
                                  category @ ''/'' @ file @ '')\<newline>'')"
    by (rule ext) (simp add: index_entry_def)
  then show ?thesis by (simp add: index_section_def)
qed

text \<open>
  Claim C8, as amended.  On a knowledge-base store, \<open>create_index\<close> returns the path of
  \<open>INDEX.md\<close> and writes an index made of the title, the time-stamp line, one section per
  category in the order of the category table, and the footer.  The section of a category
  is its heading, its description and then one line \<open>- [title](category/file)\<close> for each file
  listed, where the title is the file name without \<open>.md\<close> and with spaces for underscores, or
  the line \<open>*No documents yet*\<close> when nothing is listed.  The files listed are exactly the names
  of that folder that end in \<open>.md\<close>, each as often as the folder has it, in descending order of
  file name (the code sorts with \<open>reverse=True\<close>), and the number in the footer is the sum of
  the lengths of these lists.  The index itself is a file of the base directory, not of a
  category folder, and writing it leaves the folders as they are.
\<close>

theorem create_index_lists_documents:
  assumes "kb_store s"
  shows "\<exists>listings.
      length listings = length categories
    \<and> fst (create_index kb now s) = Inr (path_join (base_path kb) ''INDEX.md'')
    \<and> map_of (root_files (snd (create_index kb now s))) ''INDEX.md'' =
        Some (''# Knowledge Base Index\<newline>\<newline>'' @ ''*Last updated: '' @ strftime_long now @ ''*\<newline>\<newline>'' @
              concat (map (\<lambda>((category, description), listed).
                             ''## '' @ str_title category @ ''\<newline>'' @
                             ''*'' @ description @ ''*\<newline>\<newline>'' @
                             (if listed = [] then ''*No documents yet*\<newline>''
                              else concat (map (\<lambda>file.
                                     ''- ['' @ replace (replace file ''.md'' []) ''_'' '' '' @ '']('' @
                                     category @ ''/'' @ file @ '')\<newline>'') listed)) @
                             ''\<newline>'')
                          (zip categories listings)) @
              ''\<newline>---\<newline>**Total Documents: '' @ decimal (sum_list (map length listings)) @ ''**\<newline>'')
    \<and> (\<forall>i < length categories.
          mset (listings ! i) =
            mset (filter (\<lambda>f. endswith f ''.md'') (folder_names s (fst (categories ! i))))
        \<and> sorted (rev (listings ! i)))
    \<and> folders (snd (create_index kb now s)) = folders s"
proof -
  let ?ls = "map (\<lambda>(c, d). md_listing s c) categories"
  let ?section = "\<lambda>((category, description), listed).
                             ''## '' @ str_title category @ ''\<newline>'' @
                             ''*'' @ description @ ''*\<newline>\<newline>'' @
                             (if listed = [] then ''*No documents yet*\<newline>''
                              else concat (map (\<lambda>file.
                                     ''- ['' @ replace (replace file ''.md'' []) ''_'' '' '' @ '']('' @
                                     category @ ''/'' @ file @ '')\<newline>'') listed)) @
                             ''\<newline>''"
  have sec: "?section = (\<lambda>((category, description), listed).
                             index_section category description listed)"
    by (intro ext) (simp add: index_section_text split: prod.split)
  have z: "map (\<lambda>((category, description), listed). index_section category description listed)
             (zip cds (map (\<lambda>(c, d). md_listing s c) cds))
         = map (\<lambda>(c, d). index_section c d (md_listing s c)) cds" for cds
    by (induction cds) auto
  have l: "map length (map (\<lambda>(c, d). md_listing s c) cds)
         = map (\<lambda>(c, d). length (md_listing s c)) cds" for cds
    by (induction cds) auto
  have "length ?ls = length categories" by simp
  moreover have "fst (create_index kb now s) = Inr (path_join (base_path kb) ''INDEX.md'')"
    by (simp add: create_index_ok [OF assms])
  moreover have "map_of (root_files (snd (create_index kb now s))) ''INDEX.md'' =
        Some (''# Knowledge Base Index\<newline>\<newline>'' @ ''*Last updated: '' @ strftime_long now @ ''*\<newline>\<newline>'' @
              concat (map ?section (zip categories ?ls)) @
              ''\<newline>---\<newline>**Total Documents: '' @ decimal (sum_list (map length ?ls)) @ ''**\<newline>'')"
    unfolding sec z l
    by (simp add: create_index_ok [OF assms] update_conv' index_text_def index_rest_def
        index_footer_def)
  moreover have "\<forall>i < length categories.
          mset (?ls ! i) =
            mset (filter (\<lambda>f. endswith f ''.md'') (folder_names s (fst (categories ! i))))
        \<and> sorted (rev (?ls ! i))"
    by (simp add: md_listing_props case_prod_beta)
  moreover have "folders (snd (create_index kb now s)) = folders s"
    by (simp add: create_index_ok [OF assms])
  ultimately show ?thesis by blast
qed


lemma index_lines:
  assumes "CHR 0x0A \<notin> set stamp"
  shows "split_lines (''# Knowledge Base Index\<newline>\<newline>'' @ ''*Last updated: '' @ stamp @ ''*\<newline>\<newline>'' @ rest)
         = [''# Knowledge Base Index'', [], ''*Last updated: '' @ stamp @ ''*'']
           @ split_lines (CHR 0x0A # rest)"
proof -
  have "''# Knowledge Base Index\<newline>\<newline>'' @ ''*Last updated: '' @ stamp @ ''*\<newline>\<newline>'' @ rest
      = ''# Knowledge Base Index'' @ CHR 0x0A # ([] @ CHR 0x0A #
          ((''*Last updated: '' @ stamp @ ''*'') @ CHR 0x0A # (CHR 0x0A # rest)))"
    by simp
  moreover have "CHR 0x0A \<notin> set (''*Last updated: '' @ stamp @ ''*'')" using assms by simp
  ultimately show ?thesis
    by (simp only: split_lines_append_newline split_lines_no_newline)
       (simp add: split_lines_no_newline)
qed

lemma nth3: "i \<noteq> 2 \<Longrightarrow> ([a, b, c] @ xs) ! i = ([a, b, c'] @ xs) ! i"
proof -
  assume "i \<noteq> 2"
  have "[a, b, c'] @ xs = ([a, b, c] @ xs)[2 := c']" by (simp add: numeral_2_eq_2)
  with \<open>i \<noteq> 2\<close> show ?thesis by (metis nth_list_update_neq)
qed

lemma index_text_lines:
  "split_lines (index_text t s) =
     [''# Knowledge Base Index'', [], ''*Last updated: '' @ strftime_long t @ ''*'']
     @ split_lines (CHR 0x0A # index_rest s)"
  unfolding index_text_def using strftime_long_chars by (rule index_lines)

lemma create_index_snd:
  "kb_store s \<Longrightarrow>
   snd (create_index kb t s) = s\<lparr>root_files := AList.update ''INDEX.md'' (index_text t s) (root_files s)\<rparr>"
  by (simp add: create_index_ok)

lemma create_index_twice:
  assumes "kb_store s"
  shows "snd (create_index kb t2 (snd (create_index kb t1 s))) =
     s\<lparr>root_files := AList.update ''INDEX.md'' (index_text t2 s)
         (AList.update ''INDEX.md'' (index_text t1 s) (root_files s))\<rparr>"
proof -
  define s1 where "s1 = s\<lparr>root_files := AList.update ''INDEX.md'' (index_text t1 s) (root_files s)\<rparr>"
  have f: "folders s1 = folders s" by (simp add: s1_def)
  have k: "kb_store s1" using assms kb_store_cong [OF f] by simp
  have "index_text t2 s1 = index_text t2 s"
    unfolding index_text_def index_rest_cong [OF f] by (rule refl)
  then have "snd (create_index kb t2 s1) =
     s\<lparr>root_files := AList.update ''INDEX.md'' (index_text t2 s)
         (AList.update ''INDEX.md'' (index_text t1 s) (root_files s))\<rparr>"
    by (simp add: create_index_snd [OF k]) (simp add: s1_def)
  then show ?thesis by (simp add: create_index_snd [OF assms] s1_def)
qed

text \<open>
  Claim C7.  Running \<open>create_index\<close> twice on a knowledge-base store, with nothing else
  happening in between, writes two index files with the same number of lines that agree on
  every line except line 2 (counting from 0), which is the \<open>Last updated\<close> line of each run;
  with equal clock readings the two files are identical.  The second run leaves the folders
  and every other file of the base directory as the store had them.
\<close>

theorem create_index_idempotent:
  assumes "kb_store s"
  shows "\<exists>index1 index2.
      map_of (root_files (snd (create_index kb t1 s))) ''INDEX.md'' = Some index1
    \<and> map_of (root_files (snd (create_index kb t2 (snd (create_index kb t1 s))))) ''INDEX.md''
        = Some index2
    \<and> length (split_lines index1) = length (split_lines index2)
    \<and> split_lines index1 ! 2 = ''*Last updated: '' @ strftime_long t1 @ ''*''
    \<and> split_lines index2 ! 2 = ''*Last updated: '' @ strftime_long t2 @ ''*''
    \<and> (\<forall>i < length (split_lines index1). i \<noteq> 2 \<longrightarrow> split_lines index1 ! i = split_lines index2 ! i)
    \<and> (t1 = t2 \<longrightarrow> index1 = index2)
    \<and> folders (snd (create_index kb t2 (snd (create_index kb t1 s)))) = folders s
    \<and> (\<forall>name. name \<noteq> ''INDEX.md'' \<longrightarrow>
          map_of (root_files (snd (create_index kb t2 (snd (create_index kb t1 s))))) name
          = map_of (root_files s) name)"
proof -
  let ?l1 = "split_lines (index_text t1 s)" and ?l2 = "split_lines (index_text t2 s)"
  have "map_of (root_files (snd (create_index kb t1 s))) ''INDEX.md'' = Some (index_text t1 s)"
    by (simp add: create_index_snd [OF assms] update_conv')
  moreover have "map_of (root_files (snd (create_index kb t2 (snd (create_index kb t1 s)))))
       ''INDEX.md'' = Some (index_text t2 s)"
    by (simp add: create_index_twice [OF assms] update_conv')
  moreover have "length ?l1 = length ?l2"
    unfolding index_text_lines by simp
  moreover have "?l1 ! 2 = ''*Last updated: '' @ strftime_long t1 @ ''*''"
    unfolding index_text_lines by simp
  moreover have "?l2 ! 2 = ''*Last updated: '' @ strftime_long t2 @ ''*''"
    unfolding index_text_lines by simp
  moreover have "\<forall>i < length ?l1. i \<noteq> 2 \<longrightarrow> ?l1 ! i = ?l2 ! i"
    unfolding index_text_lines by (intro allI impI nth3)
  moreover have "t1 = t2 \<longrightarrow> index_text t1 s = index_text t2 s" by simp
  moreover have "folders (snd (create_index kb t2 (snd (create_index kb t1 s)))) = folders s"
    by (simp add: create_index_twice [OF assms])
  moreover have "\<forall>name. name \<noteq> ''INDEX.md'' \<longrightarrow>
          map_of (root_files (snd (create_index kb t2 (snd (create_index kb t1 s))))) name
          = map_of (root_files s) name"
    by (simp add: create_index_twice [OF assms] update_conv')
  ultimately show ?thesis by blast
qed


lemma kb_store_demo: "kb_store demo_store"
  by code_simp

theorem create_index_idempotent_witness:
  "\<exists>index1 index2.
      map_of (root_files (snd (create_index demo_kb demo_time demo_store))) ''INDEX.md'' = Some index1
    \<and> map_of (root_files (snd (create_index demo_kb demo_later
                                 (snd (create_index demo_kb demo_time demo_store))))) ''INDEX.md''
        = Some index2
    \<and> length (split_lines index1) = length (split_lines index2)
    \<and> (\<forall>i < length (split_lines index1). i \<noteq> 2 \<longrightarrow> split_lines index1 ! i = split_lines index2 ! i)"
proof -
  have "kb_store demo_store" by code_simp
  from create_index_idempotent [OF this, of demo_kb demo_time demo_later]
  show ?thesis by blast
qed

theorem create_index_lists_documents_witness:
  "\<exists>listings.
      length listings = length categories
    \<and> fst (create_index demo_kb demo_time demo_store)
        = Inr (path_join (base_path demo_kb) ''INDEX.md'')
    \<and> map_of (root_files (snd (create_index demo_kb demo_time demo_store))) ''INDEX.md'' =
        Some (''# Knowledge Base Index\<newline>\<newline>'' @ ''*Last updated: '' @ strftime_long demo_time @ ''*\<newline>\<newline>'' @
              concat (map (\<lambda>((category, description), listed).
                             ''## '' @ str_title category @ ''\<newline>'' @
                             ''*'' @ description @ ''*\<newline>\<newline>'' @
                             (if listed = [] then ''*No documents yet*\<newline>''
                              else concat (map (\<lambda>file.
                                     ''- ['' @ replace (replace file ''.md'' []) ''_'' '' '' @ '']('' @
                                     category @ ''/'' @ file @ '')\<newline>'') listed)) @
                             ''\<newline>'')
                          (zip categories listings)) @
              ''\<newline>---\<newline>**Total Documents: '' @ decimal (sum_list (map length listings)) @ ''**\<newline>'')
    \<and> (\<forall>i < length categories.
          mset (listings ! i) =
            mset (filter (\<lambda>f. endswith f ''.md'') (folder_names demo_store (fst (categories ! i))))
        \<and> sorted (rev (listings ! i)))
    \<and> folders (snd (create_index demo_kb demo_time demo_store)) = folders demo_store"
proof -
  have k: "kb_store demo_store" by code_simp
  show ?thesis by (rule create_index_lists_documents [OF k])
qed

text \<open>
  Claim C8 as worded has the files of a section sorted by file name.  The index of the example
  store lists the two documents of the folder \<open>midnight\<close> with the greater file name first:
  the order is descending, not ascending.
\<close>

theorem create_index_descending_counterexample:
  "map_of (root_files (snd (create_index demo_kb demo_time demo_store))) ''INDEX.md'' =
     Some (''# Knowledge Base Index\<newline>'' @
           ''\<newline>'' @
           ''*Last updated: 2025-01-06 09:05:07*\<newline>'' @
           ''\<newline>'' @
           ''## Midnight\<newline>'' @
           ''*Midnight blockchain documentation*\<newline>'' @
           ''\<newline>'' @
           ''- [20250106 080000 Night Token](midnight/20250106_080000_Night_Token.md)\<newline>'' @
           ''- [20250105 101500 Dust](midnight/20250105_101500_Dust.md)\<newline>'' @
           ''\<newline>'' @
           ''## Cardano\<newline>'' @
           ''*Cardano technical specs*\<newline>'' @
           ''\<newline>'' @
           ''*No documents yet*\<newline>'' @
           ''\<newline>'' @
           ''## Healthcare\<newline>'' @
           ''*Healthcare standards and regulations*\<newline>'' @
           ''\<newline>'' @
           ''*No documents yet*\<newline>'' @
           ''\<newline>'' @
           ''## Zkproofs\<newline>'' @
           ''*Zero-knowledge proof research*\<newline>'' @
           ''\<newline>'' @
           ''*No documents yet*\<newline>'' @
           ''\<newline>'' @
           ''## Competitors\<newline>'' @
           ''*Competitive analysis*\<newline>'' @
           ''\<newline>'' @
           ''*No documents yet*\<newline>'' @
           ''\<newline>'' @
           ''## Architecture\<newline>'' @
           ''*System architecture and design*\<newline>'' @
           ''\<newline>'' @
           ''*No documents yet*\<newline>'' @
           ''\<newline>'' @
           ''## Smart_Contracts\<newline>'' @
           ''*Smart contract patterns and code*\<newline>'' @
           ''\<newline>'' @
           ''*No documents yet*\<newline>'' @
           ''\<newline>'' @
           ''## Research\<newline>'' @
           ''*Raw research findings*\<newline>'' @
           ''\<newline>'' @
           ''- [20250104 120000 Raw](research/20250104_120000_Raw.md)\<newline>'' @
           ''\<newline>'' @
           ''\<newline>'' @
           ''---\<newline>'' @
           ''**Total Documents: 3**\<newline>'')
   \<and> ''20250105_101500_Dust.md'' < ''20250106_080000_Night_Token.md''
   \<and> \<not> sorted [''20250106_080000_Night_Token.md'', ''20250105_101500_Dust.md'']"
  by code_simp

lemma demo_listing:
  "md_listing demo_store ''midnight'' = [''20250106_080000_Night_Token.md'', ''20250105_101500_Dust.md'']"
  by code_simp

section \<open>Properties of the search\<close>

lemma of_char_lower_char:
  "(of_char (lower_char c) :: nat) = (if is_upper c then of_char c + 32 else of_char c)"
proof (cases "is_upper c")
  case True
  then have "(of_char c :: nat) + 32 < 256" by (auto simp: is_upper_def Let_def)
  with True show ?thesis by (simp add: lower_char_def)
next
  case False
  then show ?thesis by (simp add: lower_char_def)
qed

lemma not_upper_lower_char: "\<not> is_upper (lower_char c)"
proof (cases "is_upper c")
  case True
  then show ?thesis
    using of_char_lower_char [of c] by (auto simp: is_upper_def Let_def)
next
  case False
  then show ?thesis by (simp add: lower_char_def)
qed






lemma length_lower [simp]: "length (lower s) = length s"
  by (simp add: lower_def)
















lemma demo_search:
  "search demo_kb nothing_outside ''Privacy'' None demo_store =
     Inr [''./knowledge_base/midnight/20250105_101500_Dust.md'',
          ''./knowledge_base/midnight/20250106_080000_Night_Token.md'']"
  by code_simp

text \<open>
  Categories that are not plain folder names: the search follows the path.  Line endings are
  normalised before the comparison, so a query with a line feed is found in a text stored
  with a carriage return and a line feed.
\<close>

lemma demo_search_paths:
  "search demo_kb nothing_outside ''raw'' (Some ''.'') demo_store
     = Inr [''./knowledge_base/./research/20250104_120000_Raw.md'']"
  "search demo_kb nothing_outside ''raw'' (Some ''research/'') demo_store
     = Inr [''./knowledge_base/research/20250104_120000_Raw.md'']"
  "search demo_kb nothing_outside ''raw'' (Some ''midnight/../research'') demo_store
     = Inr [''./knowledge_base/midnight/../research/20250104_120000_Raw.md'']"
  "search demo_kb nothing_outside ''raw'' (Some ''missing/../research'') demo_store = Inr []"
  "search demo_kb nothing_outside ''raw'' (Some (''re'' @ [CHR 0x00])) demo_store
     = Inl (ValueError ''embedded null byte'')"
  "search demo_kb nothing_outside (''a'' @ [CHR 0x0A] @ ''b'') None
      \<lparr>root_files = [(''x.md'', ''a'' @ [CHR 0x0D, CHR 0x0A] @ ''b'')], folders = []\<rparr>
     = Inr [''./knowledge_base/x.md'']"
  by code_simp+


section \<open>Properties of the task table\<close>


lemma last_id_update_task [simp]: "last_id (update_task i f d) = last_id d"
  by (simp add: update_task_def)






















section \<open>Properties of the dashboard's tasks\<close>

lemma board_status_update:
  "board_status (d\<lparr>tasks := AList.update j t (tasks d)\<rparr>) i =
     (if i = j then Some (rt_status t) else board_status d i)"
  by (simp add: board_status_def update_conv')


lemma board_status_queue [simp]:
  "board_status (d\<lparr>research_queue := q\<rparr>) i = board_status d i"
  "board_status (d\<lparr>research_results := rs\<rparr>) i = board_status d i"
  "board_status (d\<lparr>task_counter := n\<rparr>) i = board_status d i"
  by (simp_all add: board_status_def)

lemma set_task_fields [simp]:
  "research_queue (set_task j f d) = research_queue d"
  "task_counter (set_task j f d) = task_counter d"
  "fst ` set (tasks (set_task j f d)) = fst ` set (tasks d)"
  by (simp_all add: set_task_def dom_map_entry)

lemma board_ok_set_task [simp]: "board_ok (set_task j f d) = board_ok d"
  by (simp add: board_ok_def)















end
